theory Spec2Isabelle
  imports Complex_Main "HOL-Library.Word" "HOL-Library.Code_Target_Numeral"
begin

section \<open>Rooms and channel strings (types/Room)\<close>

text \<open>
  A number of the language is a double. The numbers that hold a non-negative integer are
  the naturals that rounding to the nearest double leaves as they are; \<open>Infinity\<close>
  is what reading a numeral beyond the largest double gives.
\<close>

datatype Number = Finite nat | Infinity

text \<open>The number of binary digits of a natural.\<close>

fun bit_length :: "nat \<Rightarrow> nat" where
  "bit_length n = (if n = 0 then 0 else Suc (bit_length (n div 2)))"

declare bit_length.simps [simp del]

text \<open>
  The double nearest to a natural: the 53 leading binary digits stay and the rest is
  rounded, a tie going to the neighbour whose last kept digit is even; a rounded value
  that reaches \<open>2 ^ 1024\<close> is \<open>Infinity\<close>.
\<close>

definition round_double :: "nat \<Rightarrow> Number" where
  "round_double n =
     (let e = bit_length n - 53;
          q = n div 2 ^ e;
          r = n mod 2 ^ e;
          up = (2 ^ e < 2 * r \<or> (2 * r = 2 ^ e \<and> odd q));
          v = (if up then q + 1 else q) * 2 ^ e
      in if v < 2 ^ 1024 then Finite v else Infinity)"

definition is_double :: "nat \<Rightarrow> bool" where
  "is_double n = (round_double n = Finite n)"

record RoomGroup =
  no :: Number
  group_name :: string

record RoomRest =
  code :: string
  name :: string
  language :: string
  starter_code :: string
  groups :: "RoomGroup list"

record Room = RoomRest +
  created :: string
  locked :: bool

datatype room_arg = RoomObject "Room" | RoomCode string

datatype group_arg = GroupObject "RoomGroup" | GroupNo Number

definition digit_chars :: string where
  "digit_chars = ''0123456789''"

definition digit_char :: "nat \<Rightarrow> char" where
  "digit_char d = digit_chars ! d"

text \<open>The value of a digit is its place among the digits.\<close>

definition digit_val :: "char \<Rightarrow> nat" where
  "digit_val c = length (takeWhile (\<lambda>d. d \<noteq> c) digit_chars)"

definition is_digit :: "char \<Rightarrow> bool" where
  "is_digit c = (c \<in> set digit_chars)"

text \<open>The character class \<^verbatim>\<open>[a-zA-Z0-9-]\<close> of both regular expressions.\<close>

definition is_code_char :: "char \<Rightarrow> bool" where
  "is_code_char c =
     (c \<in> set ''abcdefghijklmnopqrstuvwxyzABCDEFGHIJKLMNOPQRSTUVWXYZ0123456789-'')"

text \<open>The decimal digits of a natural number, most significant first.\<close>

fun decimal :: "nat \<Rightarrow> string" where
  "decimal n = (if n < 10 then [digit_char n] else decimal (n div 10) @ [digit_char (n mod 10)])"

declare decimal.simps [simp del]

text \<open>
  \<^verbatim>\<open>`${group}`\<close> for a number that holds a non-negative integer. The language
  prints the numeral with the fewest significant digits among those that read back as
  the number; of several it takes the nearest to the number, and of two equally near the
  one whose last significant digit is even. \<open>nearest n p\<close> holds the two multiples
  of \<open>p\<close> next to \<open>n\<close>, the preferred one first, and \<open>shortest_from n j\<close> tries
  the numerals that end in \<open>j\<close> zeros before those that end in fewer. A numeral
  below \<open>10 ^ 21\<close> is printed in plain digits, and from there on in the exponent
  notation of the language (\<^verbatim>\<open>1e+21\<close>, \<^verbatim>\<open>1.5e+21\<close>): the significant
  digits, a point after the first when there are more, then \<^verbatim>\<open>e+\<close> and the
  exponent.
\<close>

definition nearest :: "nat \<Rightarrow> nat \<Rightarrow> nat list" where
  "nearest n p =
     (let lo = n div p * p;
          hi = lo + p
      in if n - lo < hi - n \<or> (n - lo = hi - n \<and> even (n div p)) then [lo, hi] else [hi, lo])"

primrec shortest_from :: "nat \<Rightarrow> nat \<Rightarrow> nat" where
  "shortest_from n 0 = n"
| "shortest_from n (Suc j) =
     (case find (\<lambda>m. round_double m = Finite n) (nearest n (10 ^ Suc j)) of
        Some m \<Rightarrow> m
      | None \<Rightarrow> shortest_from n j)"

definition shortest :: "nat \<Rightarrow> nat" where
  "shortest n = shortest_from n (length (decimal n) - 1)"

definition strip_zeros :: "string \<Rightarrow> string" where
  "strip_zeros ds = rev (dropWhile (\<lambda>c. c = CHR ''0'') (rev ds))"

definition Number_toString :: "Number \<Rightarrow> string" where
  "Number_toString x =
     (case x of
        Infinity \<Rightarrow> ''Infinity''
      | Finite n \<Rightarrow>
          (let m = shortest n
           in if m < 10 ^ 21 then decimal m
              else (case strip_zeros (decimal m) of
                      [] \<Rightarrow> []
                    | d # ds \<Rightarrow>
                        d # (if ds = [] then [] else CHR ''.'' # ds) @ ''e+'' @
                          decimal (length (decimal m) - 1))))"

definition channelString :: "room_arg \<Rightarrow> group_arg \<Rightarrow> string" where
  "channelString room grp =
     (let room_code = (case room of RoomObject r \<Rightarrow> code r | RoomCode c \<Rightarrow> c);
          group_no = (case grp of GroupObject g \<Rightarrow> no g | GroupNo n \<Rightarrow> n)
      in room_code @ '':'' @ Number_toString group_no)"

text \<open>The integer that a string of digits denotes.\<close>

definition mathInt :: "string \<Rightarrow> nat" where
  "mathInt ds = foldl (\<lambda>acc c. 10 * acc + digit_val c) 0 ds"

text \<open>
  \<^verbatim>\<open>parseInt(s, 10)\<close> on a string of digits: the number nearest to the integer
  that the digits denote.
\<close>

definition parseInt :: "string \<Rightarrow> Number" where
  "parseInt ds = round_double (mathInt ds)"

datatype error =
  InvalidChannelString
  | NoSuchRoom
  | NoSuchGroupInRoom
  | RoomIsLocked
  | MalformedUpdate
  | DatabaseError

text \<open>
  The pattern \<^verbatim>\<open>/^([a-zA-Z0-9-]+):([0-9]+)$/\<close>: the first group takes the longest
  run of class characters (a colon is not in the class, so no shorter run can match), a
  colon follows, and digits fill the rest of the string.
\<close>

definition parseChannelString :: "string \<Rightarrow> error + (string \<times> Number)" where
  "parseChannelString channel =
     (let code = takeWhile is_code_char channel;
          rest = dropWhile is_code_char channel
      in case rest of
           [] \<Rightarrow> Inl InvalidChannelString
         | c # digits \<Rightarrow>
             if code \<noteq> [] \<and> c = CHR '':'' \<and> digits \<noteq> [] \<and> list_all is_digit digits
             then Inr (code, parseInt digits)
             else Inl InvalidChannelString)"


section \<open>Server actions on the database (app/actions)\<close>

text \<open>
  The millisecond grace period when saving updates to a room that is locked.
\<close>

definition LockSaveGracePeriodMs :: int where
  "LockSaveGracePeriodMs = 5000"

type_synonym byte = "8 word"

text \<open>
  A row of the table \<^verbatim>\<open>rooms\<close> holds the room's columns, its owner and the time
  it was locked, in milliseconds since the epoch as \<^verbatim>\<open>new Date(lock_time).getTime()\<close>
  reads it; \<open>None\<close> is SQL's null. The room code is the table's primary key, so the
  table is a map from codes to rows. The table \<^verbatim>\<open>updates\<close> is the list of its
  rows (channel, update) in insertion order.
\<close>

record RoomRow = RoomRest +
  owner :: string
  lock_time :: "int option"

record database =
  rooms :: "string \<rightharpoonup> RoomRow"
  updates :: "(string \<times> string) list"

text \<open>
  What one call of a server action reads from outside: the clock, the signed-in user
  (\<^verbatim>\<open>getUser()\<close>), and whether each database call succeeds (a call that fails
  makes \<^verbatim>\<open>throwOnError()\<close> throw, with the message given).
\<close>

record request =
  now :: int
  user :: "string option"
  rooms_select_ok :: bool
  rooms_write_ok :: bool
  updates_insert_ok :: bool
  fault_message :: string

definition hex_digit :: "nat \<Rightarrow> char" where
  "hex_digit d = ''0123456789abcdef'' ! d"

text \<open>\<^verbatim>\<open>Buffer.from(update)\<close>: every number is taken modulo 256.\<close>

definition Buffer_from :: "int list \<Rightarrow> byte list" where
  "Buffer_from update = map word_of_int update"

text \<open>A backslash, an x, and two hexadecimal digits for every byte.\<close>

definition encodeBytes :: "byte list \<Rightarrow> string" where
  "encodeBytes buffer =
     CHR 0x5C # CHR ''x'' #
     concat (map (\<lambda>b. [hex_digit (unat b div 16), hex_digit (unat b mod 16)]) buffer)"

text \<open>
  \<^verbatim>\<open>saveDocument(channel, update)\<close>. The first argument stands for the library's
  \<^verbatim>\<open>decodeUpdateV2\<close>: it holds of the byte strings that decode without an error.
  The result is what the call returns or throws, and the database after it.
\<close>

definition saveDocument ::
  "(byte list \<Rightarrow> bool) \<Rightarrow> request \<Rightarrow> database \<Rightarrow> string \<Rightarrow> int list \<Rightarrow> (error + unit) \<times> database" where
  "saveDocument decodeUpdateV2 req db channel update =
     (let updateTs = now req in
      case parseChannelString channel of
        Inl e \<Rightarrow> (Inl e, db)
      | Inr (room_code, group_no) \<Rightarrow>
          if \<not> rooms_select_ok req then (Inl DatabaseError, db)
          else
            (case rooms db room_code of
               None \<Rightarrow> (Inl NoSuchRoom, db)
             | Some room \<Rightarrow>
                 if \<not> list_ex (\<lambda>g. no g = group_no) (groups room) then (Inl NoSuchGroupInRoom, db)
                 else if (case lock_time room of
                            None \<Rightarrow> False
                          | Some lockTs \<Rightarrow>
                              user req \<noteq> Some (owner room) \<and> updateTs - lockTs > LockSaveGracePeriodMs)
                 then (Inl RoomIsLocked, db)
                 else
                   (let bytes = Buffer_from update in
                    if \<not> decodeUpdateV2 bytes then (Inl MalformedUpdate, db)
                    else if \<not> updates_insert_ok req then (Inl DatabaseError, db)
                    else (Inr (), db\<lparr>updates := updates db @ [(channel, encodeBytes bytes)]\<rparr>))))"

datatype failure = Failure nat string

text \<open>
  The row \<^verbatim>\<open>upsertRoom\<close> writes: the room without \<^verbatim>\<open>created\<close> and
  \<^verbatim>\<open>locked\<close>, the owner, and the lock time
  \<^verbatim>\<open>room.locked ? existing?.lock_time || new Date().toISOString() : null\<close>.
\<close>

definition upsertRoom_row :: "string \<Rightarrow> int \<Rightarrow> RoomRow option \<Rightarrow> Room \<Rightarrow> RoomRow" where
  "upsertRoom_row owner_id current_time existing room =
     \<lparr>code = code room, name = name room, language = language room,
      starter_code = starter_code room, groups = groups room,
      owner = owner_id,
      lock_time =
        (if locked room
         then (case (case existing of None \<Rightarrow> None | Some e \<Rightarrow> lock_time e) of
                 Some t \<Rightarrow> Some t
               | None \<Rightarrow> Some current_time)
         else None)\<rparr>"

text \<open>
  \<^verbatim>\<open>upsertRoom(room)\<close> up to and including its write to the table of rooms. The
  first argument stands for \<^verbatim>\<open>RoomSchema.safeParseAsync\<close>: the validated room,
  or the message of the validation error. The result is the failure returned so far, if
  any, and the database. The rest of the function (the starter code of the groups, the
  revalidation of paths, the notification of the participants) decides the response but
  writes nothing to the table of rooms.
\<close>

definition upsertRoom ::
  "(Room \<Rightarrow> string + Room) \<Rightarrow> request \<Rightarrow> database \<Rightarrow> Room \<Rightarrow> failure option \<times> database" where
  "upsertRoom safeParse req db room_in =
     (case safeParse room_in of
        Inl message \<Rightarrow> (Some (Failure 400 message), db)
      | Inr room \<Rightarrow>
          (case user req of
             None \<Rightarrow> (Some (Failure 401 ''Unauthorized''), db)
           | Some owner_id \<Rightarrow>
               if \<not> rooms_select_ok req then (Some (Failure 500 (fault_message req)), db)
               else
                 (let existing = rooms db (code room) in
                  if (case existing of None \<Rightarrow> False | Some e \<Rightarrow> owner e \<noteq> owner_id)
                  then (Some (Failure 401 ''Unauthorized''), db)
                  else
                    (let row = upsertRoom_row owner_id (now req) existing room in
                     if \<not> rooms_write_ok req then (Some (Failure 500 (fault_message req)), db)
                     else (None, db\<lparr>rooms := (rooms db)(code room \<mapsto> row)\<rparr>)))))"

section \<open>The synchronization provider (provider/provider)\<close>

datatype ConnectionStatus = Connected | Disconnected | Connecting | DisconnectedError

datatype ReadWriteMode = ReadWrite | ReadOnly

definition DefaultResyncMs :: real where
  "DefaultResyncMs = 20000"

definition DefaultSaveMs :: real where
  "DefaultSaveMs = 2500"

text \<open>
  The configuration. The two callbacks are what the embedding application does; the
  configuration records whether each is given. Intervals are numbers of milliseconds.
\<close>

record SupabaseProviderConfig =
  channel :: string
  saveDocument_hook :: bool
  loadDocument_hook :: bool
  resync :: bool
  save :: bool
  resyncInterval :: real
  saveInterval :: real
  throttleInterval :: real
  log_flag :: bool
  rw :: ReadWriteMode

text \<open>The configuration as passed: every field but the channel may be undefined.\<close>

record ProviderConfig =
  given_channel :: string
  given_saveDocument :: bool
  given_loadDocument :: bool
  given_resync :: "bool option"
  given_save :: "bool option"
  given_resyncInterval :: "real option"
  given_saveInterval :: "real option"
  given_throttleInterval :: "real option"
  given_log :: "bool option"
  given_rw :: "ReadWriteMode option"

datatype config_error = ResyncIntervalMustBePositive | SaveIntervalMustBePositive

definition defaults :: "'a option \<Rightarrow> 'a \<Rightarrow> 'a" where
  "defaults given d = (case given of None \<Rightarrow> d | Some v \<Rightarrow> v)"

definition validateConfig :: "ProviderConfig \<Rightarrow> config_error + SupabaseProviderConfig" where
  "validateConfig config =
     (let result =
        \<lparr>channel = given_channel config,
         saveDocument_hook = given_saveDocument config,
         loadDocument_hook = given_loadDocument config,
         resync = defaults (given_resync config) True,
         save = defaults (given_save config) True,
         resyncInterval = defaults (given_resyncInterval config) DefaultResyncMs,
         saveInterval = defaults (given_saveInterval config) DefaultSaveMs,
         throttleInterval = defaults (given_throttleInterval config) 0,
         log_flag = defaults (given_log config) True,
         rw = defaults (given_rw config) ReadWrite\<rparr>
      in if resyncInterval result \<le> 0 then Inl ResyncIntervalMustBePositive
         else if saveInterval result \<le> 0 then Inl SaveIntervalMustBePositive
         else Inr result)"


subsection \<open>Payloads\<close>

type_synonym bytes = "byte list"

text \<open>A value received from the channel, as decoded from JSON.\<close>

datatype json =
  JUndefined
  | JNull
  | JBool bool
  | JNum real
  | JStr string
  | JArr "json list"
  | JObj "(string \<times> json) list"

record Payload =
  payload_document :: "bytes option"
  payload_awareness :: "bytes option"

text \<open>\<^verbatim>\<open>z.number().int().min(0).max(255)\<close>\<close>

fun ByteSchema :: "json \<Rightarrow> bool" where
  "ByteSchema (JNum x) = (of_int \<lfloor>x\<rfloor> = x \<and> 0 \<le> x \<and> x \<le> 255)"
| "ByteSchema _ = False"

fun json_byte :: "json \<Rightarrow> byte" where
  "json_byte (JNum x) = word_of_int \<lfloor>x\<rfloor>"
| "json_byte _ = 0"

text \<open>
  \<^verbatim>\<open>ByteArraySchema\<close>: an array of at least one byte. \<open>None\<close> is a failed parse.
\<close>

fun ByteArraySchema :: "json \<Rightarrow> bytes option" where
  "ByteArraySchema (JArr xs) =
     (if list_all ByteSchema xs \<and> 1 \<le> length xs then Some (map json_byte xs) else None)"
| "ByteArraySchema _ = None"

text \<open>A field declared \<^verbatim>\<open>.optional()\<close>: absent or undefined, or valid.\<close>

definition optional_field :: "(string \<times> json) list \<Rightarrow> string \<Rightarrow> bytes option option" where
  "optional_field entries key =
     (case map_of entries key of
        None \<Rightarrow> Some None
      | Some JUndefined \<Rightarrow> Some None
      | Some v \<Rightarrow> (case ByteArraySchema v of None \<Rightarrow> None | Some b \<Rightarrow> Some (Some b)))"

text \<open>
  \<^verbatim>\<open>PayloadSchema.safeParse\<close>: the parsed payload, or \<open>None\<close> when the parse
  fails. Only an object passes; its other keys are dropped.
\<close>

fun PayloadSchema :: "json \<Rightarrow> Payload option" where
  "PayloadSchema (JObj entries) =
     (case (optional_field entries ''document'', optional_field entries ''awareness'') of
        (Some d, Some a) \<Rightarrow> Some \<lparr>payload_document = d, payload_awareness = a\<rparr>
      | _ \<Rightarrow> None)"
| "PayloadSchema _ = None"

subsection \<open>The libraries\<close>

text \<open>
  The document library, the awareness protocol and the throttle are libraries outside
  the repository. The provider is modelled over any document state \<open>'d\<close>, awareness
  state \<open>'a\<close> and throttle state \<open>'t\<close> with the operations the provider calls. An
  operation that can throw returns the state it leaves and whether it threw.
  \<open>throttle_call\<close> is a call of the throttled function at a time and
  \<open>throttle_expire\<close> the expiry of its timer: each returns the new throttle state
  and whether the wrapped function is invoked now.
\<close>

text \<open>
  An update in the second format of the document library, with \<open>Array_from\<close> for
  its bytes. The encoder of that format writes a flag byte and nine columns, each behind
  its length, before the content; so an update of this format is never the two bytes
  \<open>[0, 0]\<close>, which are the empty update of the first format.
\<close>

typedef update_v2 = "{b :: bytes. b \<noteq> [0, 0]}"
  morphisms Array_from UpdateV2
  by (rule exI[of _ "[]"]) simp

record ('d, 'a, 't) library =
  applyUpdate :: "'d \<Rightarrow> bytes \<Rightarrow> 'd \<times> bool"
  applyUpdateV2 :: "'d \<Rightarrow> bytes \<Rightarrow> 'd \<times> bool"
  encodeStateAsUpdate :: "'d \<Rightarrow> bytes"
  encodeStateAsUpdateV2 :: "'d \<Rightarrow> update_v2"
  encodeStateVector :: "'d \<Rightarrow> bytes"
  diffUpdateV2 :: "update_v2 \<Rightarrow> bytes \<Rightarrow> update_v2"
  mergeUpdates :: "bytes list \<Rightarrow> bytes"
  encodeAwarenessUpdate :: "'a \<Rightarrow> nat list \<Rightarrow> bytes"
  applyAwarenessUpdate :: "'a \<Rightarrow> bytes \<Rightarrow> 'a \<times> bool"
  removeAwarenessStates :: "'a \<Rightarrow> nat list \<Rightarrow> 'a \<times> nat list"
  getStates_keys :: "'a \<Rightarrow> nat list"
  throttle_call :: "'t \<Rightarrow> real \<Rightarrow> 't \<times> bool"
  throttle_expire :: "'t \<Rightarrow> real \<Rightarrow> 't \<times> bool"

text \<open>\<^verbatim>\<open>uniq\<close>: the first occurrence of every element, in order.\<close>

definition uniq :: "'x list \<Rightarrow> 'x list" where
  "uniq xs = rev (remdups (rev xs))"

subsection \<open>The provider's state\<close>

datatype provider_error =
  ChannelError
  | RealtimeChannelTimedOut
  | FailedToTrackPresence
  | FailedToRemoveChannel
  | LoadDocumentFailed
  | ApplyUpdateFailed
  | SaveDocumentFailed

text \<open>What the provider does to the outside, in order.\<close>

datatype effect =
  EmitStatus ConnectionStatus "provider_error option"
  | EmitSaving bool
  | ChannelSubscribe
  | ChannelTrack
  | ChannelSend Payload
  | RemoveChannel
  | CallLoadDocument
  | CallSaveDocument bytes

datatype origin = This | Other

text \<open>
  A call of \<^verbatim>\<open>destroyInternal(status, error)\<close> that waits for a save or for the
  removal of the channel is a frame holding its two arguments. An asynchronous call that
  is in flight is recorded with the frames of the calls waiting for it, innermost first.
  The code between two waits runs as one step: when an awaited method of the provider
  returns without having waited for the outside, its caller continues before the next
  event is handled.
\<close>

type_synonym frame = "ConnectionStatus \<times> provider_error option"

record update_request =
  update_document :: "bytes option"
  update_awareness :: "nat list option"
  update_resync :: bool

text \<open>The request \<^verbatim>\<open>{ resync: true }\<close>.\<close>

definition resync_request :: update_request where
  "resync_request = \<lparr>update_document = None, update_awareness = None, update_resync = True\<rparr>"

text \<open>
  The fields of the class, and beside them: the time at which the debounced save is due,
  if it is armed; the state of the throttled send; whether the unload handler and the
  update callbacks of document and awareness are registered; the calls in flight
  (\<^verbatim>\<open>loadDocument\<close> and \<^verbatim>\<open>track\<close> by their number, every
  \<^verbatim>\<open>config.saveDocument\<close> with the number of saves it claimed, every
  \<^verbatim>\<open>removeChannel\<close> with the frame that called it); and the effects so far.
  \<open>realtime_channel\<close> says that \<^verbatim>\<open>this.channel\<close> is not null, and
  \<open>resync_timer\<close> that the resync interval has not been cleared.
\<close>

record ('d, 'a, 't) SupabaseProvider =
  config :: SupabaseProviderConfig
  doc :: 'd
  clientID :: nat
  awareness :: 'a
  status :: ConnectionStatus
  realtime_channel :: bool
  resync_timer :: bool
  previous :: "bytes option"
  alone :: bool
  savesOutstanding :: int
  savesUnclaimed :: int
  debouncedSave_due :: "real option"
  documentUpdates :: "bytes list"
  awarenessUpdates :: "nat list"
  throttledSend_state :: 't
  unload_handler :: bool
  update_handlers :: bool
  pending_loads :: nat
  pending_tracks :: nat
  pending_saves :: "(int \<times> frame list) list"
  pending_removes :: "(frame \<times> frame list) list"
  effects :: "effect list"

definition saving :: "('d, 'a, 't) SupabaseProvider \<Rightarrow> bool" where
  "saving s = (savesOutstanding s > 0)"

definition emit :: "effect \<Rightarrow> ('d, 'a, 't) SupabaseProvider \<Rightarrow> ('d, 'a, 't) SupabaseProvider" where
  "emit e s = s\<lparr>effects := effects s @ [e]\<rparr>"

subsection \<open>Sending and receiving updates\<close>

definition commitUpdates ::
  "('d, 'a, 't) library \<Rightarrow> ('d, 'a, 't) SupabaseProvider \<Rightarrow> ('d, 'a, 't) SupabaseProvider" where
  "commitUpdates L s =
     (if alone s then s
      else if status s \<noteq> Connected then s
      else if \<not> realtime_channel s then s
      else if length (documentUpdates s) = 0 \<and> length (awarenessUpdates s) = 0 then s
      else
        (let payload =
               \<lparr>payload_document =
                  (if length (documentUpdates s) > 0
                   then Some (mergeUpdates L (documentUpdates s)) else None),
                payload_awareness =
                  (if length (awarenessUpdates s) > 0
                   then Some (encodeAwarenessUpdate L (awareness s) (uniq (awarenessUpdates s)))
                   else None)\<rparr>
         in emit (ChannelSend payload) (s\<lparr>documentUpdates := [], awarenessUpdates := []\<rparr>)))"

text \<open>
  \<^verbatim>\<open>throttledSend\<close> is \<^verbatim>\<open>commitUpdates\<close> itself when the throttle interval
  is 0, and the throttled function otherwise.
\<close>

definition throttledSend ::
  "('d, 'a, 't) library \<Rightarrow> real \<Rightarrow> ('d, 'a, 't) SupabaseProvider \<Rightarrow> ('d, 'a, 't) SupabaseProvider" where
  "throttledSend L time s =
     (if throttleInterval (config s) = 0 then commitUpdates L s
      else
        (let (t, invoke) = throttle_call L (throttledSend_state s) time;
             s1 = s\<lparr>throttledSend_state := t\<rparr>
         in if invoke then commitUpdates L s1 else s1))"

definition sendUpdate ::
  "('d, 'a, 't) library \<Rightarrow> real \<Rightarrow> update_request \<Rightarrow> ('d, 'a, 't) SupabaseProvider
    \<Rightarrow> ('d, 'a, 't) SupabaseProvider" where
  "sendUpdate L time update s =
     (if \<not> update_resync update \<and> rw (config s) = ReadOnly then s
      else if update_resync update \<and> \<not> resync (config s) then s
      else
        (let update1 =
               (if update_resync update
                then \<lparr>update_document = Some (encodeStateAsUpdate L (doc s)),
                      update_awareness =
                        (if rw (config s) \<noteq> ReadOnly then Some [clientID s] else None),
                      update_resync = False\<rparr>
                else update)
         in if update_document update1 = None \<and>
               (update_awareness update1 = None \<or> update_awareness update1 = Some [])
            then s
            else
              (let s1 = (case update_document update1 of
                           None \<Rightarrow> s
                         | Some d \<Rightarrow> s\<lparr>documentUpdates := documentUpdates s @ [d]\<rparr>);
                   s2 = (case update_awareness update1 of
                           None \<Rightarrow> s1
                         | Some cs \<Rightarrow> s1\<lparr>awarenessUpdates := awarenessUpdates s1 @ cs\<rparr>)
               in throttledSend L time s2)))"

definition requestSave ::
  "real \<Rightarrow> ('d, 'a, 't) SupabaseProvider \<Rightarrow> ('d, 'a, 't) SupabaseProvider" where
  "requestSave time s =
     (if status s \<noteq> Connected then s
      else if \<not> save (config s) \<or> \<not> saveDocument_hook (config s) then s
      else
        (let wasSaving = saving s;
             s1 = s\<lparr>savesOutstanding := savesOutstanding s + 1\<rparr>;
             s2 = s1\<lparr>savesUnclaimed := savesUnclaimed s1 + 1\<rparr>;
             s3 = (if wasSaving \<noteq> saving s2 then emit (EmitSaving (saving s2)) s2 else s2)
         in s3\<lparr>debouncedSave_due := Some (time + saveInterval (config s3))\<rparr>))"

definition onDocumentUpdate ::
  "('d, 'a, 't) library \<Rightarrow> real \<Rightarrow> bytes \<Rightarrow> origin \<Rightarrow> ('d, 'a, 't) SupabaseProvider
    \<Rightarrow> ('d, 'a, 't) SupabaseProvider" where
  "onDocumentUpdate L time update orig s =
     (if orig = This then s
      else requestSave time
             (sendUpdate L time
                \<lparr>update_document = Some update, update_awareness = None, update_resync = False\<rparr> s))"

definition onAwarenessUpdate ::
  "('d, 'a, 't) library \<Rightarrow> real \<Rightarrow> nat list \<Rightarrow> nat list \<Rightarrow> nat list \<Rightarrow> origin
    \<Rightarrow> ('d, 'a, 't) SupabaseProvider \<Rightarrow> ('d, 'a, 't) SupabaseProvider" where
  "onAwarenessUpdate L time added updated removed orig s =
     (if orig = This then s
      else
        (let clients = added @ updated @ removed
         in sendUpdate L time
              \<lparr>update_document = None, update_awareness = Some clients, update_resync = False\<rparr> s))"

text \<open>
  \<^verbatim>\<open>removeAwarenessStates(awareness, [clientID], "unload")\<close>: the awareness emits an
  update, with an origin that is not the provider, when a state was removed.
\<close>

definition onUnload ::
  "('d, 'a, 't) library \<Rightarrow> real \<Rightarrow> ('d, 'a, 't) SupabaseProvider \<Rightarrow> ('d, 'a, 't) SupabaseProvider" where
  "onUnload L time s =
     (let (a, removed) = removeAwarenessStates L (awareness s) [clientID s];
          s1 = s\<lparr>awareness := a\<rparr>
      in if removed \<noteq> [] \<and> update_handlers s1
         then onAwarenessUpdate L time [] [] removed Other s1
         else s1)"

text \<open>
  \<^verbatim>\<open>receiveUpdate\<close>. Both applications pass the provider as origin, so the
  callbacks they trigger return at once. An application that throws leaves the
  \<^verbatim>\<open>try\<close> block; the error is logged.
\<close>

definition receive_awareness ::
  "('d, 'a, 't) library \<Rightarrow> real \<Rightarrow> bytes option \<Rightarrow> ('d, 'a, 't) SupabaseProvider
    \<Rightarrow> ('d, 'a, 't) SupabaseProvider" where
  "receive_awareness L time update s =
     (case update of
        None \<Rightarrow> s
      | Some a \<Rightarrow>
          (let applied = applyAwarenessUpdate L (awareness s) a;
               s1 = s\<lparr>awareness := fst applied\<rparr>
           in if update_handlers s1 \<and> \<not> snd applied
              then onAwarenessUpdate L time [] [] [] This s1
              else s1))"

definition receiveUpdate ::
  "('d, 'a, 't) library \<Rightarrow> real \<Rightarrow> json \<Rightarrow> ('d, 'a, 't) SupabaseProvider
    \<Rightarrow> ('d, 'a, 't) SupabaseProvider" where
  "receiveUpdate L time update s =
     (case PayloadSchema update of
        None \<Rightarrow> s
      | Some data \<Rightarrow>
          (case payload_document data of
             None \<Rightarrow> receive_awareness L time (payload_awareness data) s
           | Some d \<Rightarrow>
               (let applied = applyUpdate L (doc s) d;
                    s1 = s\<lparr>doc := fst applied\<rparr>;
                    s2 = (if update_handlers s1 then onDocumentUpdate L time d This s1 else s1)
                in if snd applied then s2
                   else receive_awareness L time (payload_awareness data) s2)))"

subsection \<open>Saving and destroying\<close>

text \<open>The closure \<^verbatim>\<open>onSaved\<close> of a save that claimed \<open>unclaimedSaves\<close> requests.\<close>

definition onSaved ::
  "int \<Rightarrow> ('d, 'a, 't) SupabaseProvider \<Rightarrow> ('d, 'a, 't) SupabaseProvider" where
  "onSaved unclaimedSaves s =
     (let wasSaving = saving s;
          s1 = s\<lparr>savesOutstanding := savesOutstanding s - unclaimedSaves\<rparr>
      in if status s1 = Connected \<and> wasSaving \<noteq> saving s1
         then emit (EmitSaving (saving s1)) s1
         else s1)"

text \<open>
  The end of \<^verbatim>\<open>destroyInternal\<close>, after the channel is dealt with: the awareness
  states of the other clients are removed (with the provider as origin), the status is
  set and emitted.
\<close>

definition destroy_finish ::
  "('d, 'a, 't) library \<Rightarrow> frame \<Rightarrow> ('d, 'a, 't) SupabaseProvider \<Rightarrow> ('d, 'a, 't) SupabaseProvider" where
  "destroy_finish L f s =
     (let states = filter (\<lambda>client. client \<noteq> clientID s) (getStates_keys L (awareness s));
          s1 = s\<lparr>awareness := fst (removeAwarenessStates L (awareness s) states)\<rparr>;
          s2 = s1\<lparr>status := fst f\<rparr>
      in emit (EmitStatus (status s2) (snd f)) s2)"

text \<open>
  What runs when an awaited save has returned to the calls of
  \<^verbatim>\<open>destroyInternal\<close> waiting for it: each unbinds the update callbacks and, if
  the channel is not null, asks for its removal and waits; otherwise it finishes and the
  next one runs.
\<close>

fun resume ::
  "('d, 'a, 't) library \<Rightarrow> frame list \<Rightarrow> ('d, 'a, 't) SupabaseProvider \<Rightarrow> ('d, 'a, 't) SupabaseProvider" where
  "resume L [] s = s"
| "resume L (f # waiting) s =
     (let s1 = s\<lparr>update_handlers := False\<rparr>
      in if realtime_channel s1
         then emit RemoveChannel (s1\<lparr>pending_removes := pending_removes s1 @ [(f, waiting)]\<rparr>)
         else resume L waiting (destroy_finish L f s1))"

text \<open>
  \<^verbatim>\<open>removeChannel\<close> has returned to the frame that called it; \<open>ok\<close> says that it
  returned \<^verbatim>\<open>"ok"\<close>.
\<close>

definition removeChannel_returned ::
  "('d, 'a, 't) library \<Rightarrow> frame \<Rightarrow> frame list \<Rightarrow> bool \<Rightarrow> ('d, 'a, 't) SupabaseProvider
    \<Rightarrow> ('d, 'a, 't) SupabaseProvider" where
  "removeChannel_returned L f waiting ok s =
     (let f1 = (if \<not> ok then (DisconnectedError, Some FailedToRemoveChannel) else f);
          s1 = s\<lparr>realtime_channel := False\<rparr>
      in resume L waiting (destroy_finish L f1 s1))"

text \<open>
  The bytes of the update a save passes on when the document is \<open>d\<close> and the state
  vector recorded last is \<open>p\<close>: \<^verbatim>\<open>this.previous ? Y.diffUpdateV2(current,
  this.previous) : Y.encodeStateAsUpdateV2(this.doc)\<close>.
\<close>

definition save_diff :: "('d, 'a, 't) library \<Rightarrow> 'd \<Rightarrow> bytes option \<Rightarrow> bytes" where
  "save_diff L d p =
     (let current = encodeStateAsUpdateV2 L d
      in Array_from (case p of
                       Some v \<Rightarrow> diffUpdateV2 L current v
                     | None \<Rightarrow> encodeStateAsUpdateV2 L d))"

text \<open>
  \<^verbatim>\<open>saveDocument(requireConnection)\<close> up to its \<^verbatim>\<open>await\<close>, called with the
  frames \<open>waiting\<close> for it. Where the method returns, the waiting frames resume; where
  it calls \<^verbatim>\<open>config.saveDocument(diff)\<close>, the call is recorded as in flight.
\<close>

definition saveDocument_call ::
  "('d, 'a, 't) library \<Rightarrow> bool \<Rightarrow> frame list \<Rightarrow> ('d, 'a, 't) SupabaseProvider
    \<Rightarrow> ('d, 'a, 't) SupabaseProvider" where
  "saveDocument_call L requireConnection waiting s =
     (if requireConnection \<and> status s \<noteq> Connected then resume L waiting s
      else if savesUnclaimed s = 0 then resume L waiting s
      else
        (let unclaimedSaves = savesUnclaimed s;
             s1 = s\<lparr>savesUnclaimed := 0\<rparr>
         in if \<not> save (config s1) \<or> \<not> saveDocument_hook (config s1)
            then resume L waiting (onSaved unclaimedSaves s1)
            else
              (let diff = save_diff L (doc s1) (previous s1)
               in if diff = [0, 0] then resume L waiting (onSaved unclaimedSaves s1)
                  else emit (CallSaveDocument diff)
                         (s1\<lparr>pending_saves := pending_saves s1 @ [(unclaimedSaves, waiting)]\<rparr>))))"

text \<open>
  \<^verbatim>\<open>destroyInternal(status, error)\<close> up to its first \<^verbatim>\<open>await\<close>, called
  while the frames \<open>waiting\<close> wait for it.
\<close>

definition destroyInternal ::
  "('d, 'a, 't) library \<Rightarrow> real \<Rightarrow> ConnectionStatus \<Rightarrow> provider_error option \<Rightarrow> frame list
    \<Rightarrow> ('d, 'a, 't) SupabaseProvider \<Rightarrow> ('d, 'a, 't) SupabaseProvider" where
  "destroyInternal L time st err waiting s =
     (if status s = Disconnected \<or> status s = DisconnectedError then resume L waiting s
      else
        (let s1 = onUnload L time s;
             s2 = commitUpdates L s1;
             s3 = s2\<lparr>status := Disconnected\<rparr>;
             s4 = s3\<lparr>resync_timer := False\<rparr>;
             s5 = s4\<lparr>unload_handler := False\<rparr>
         in saveDocument_call L False ((st, err) # waiting) s5))"

text \<open>The call of \<^verbatim>\<open>config.saveDocument\<close> at place \<open>i\<close> has returned.\<close>

definition saveDocument_returned ::
  "('d, 'a, 't) library \<Rightarrow> nat \<Rightarrow> ('d, 'a, 't) SupabaseProvider \<Rightarrow> ('d, 'a, 't) SupabaseProvider" where
  "saveDocument_returned L i s =
     (let (unclaimedSaves, waiting) = pending_saves s ! i;
          s1 = s\<lparr>pending_saves := take i (pending_saves s) @ drop (Suc i) (pending_saves s)\<rparr>;
          s2 = s1\<lparr>previous := Some (encodeStateVector L (doc s1))\<rparr>
      in resume L waiting (onSaved unclaimedSaves s2))"

text \<open>The call of \<^verbatim>\<open>config.saveDocument\<close> at place \<open>i\<close> has thrown.\<close>

definition saveDocument_threw ::
  "('d, 'a, 't) library \<Rightarrow> real \<Rightarrow> nat \<Rightarrow> ('d, 'a, 't) SupabaseProvider
    \<Rightarrow> ('d, 'a, 't) SupabaseProvider" where
  "saveDocument_threw L time i s =
     (let (unclaimedSaves, waiting) = pending_saves s ! i;
          s1 = s\<lparr>pending_saves := take i (pending_saves s) @ drop (Suc i) (pending_saves s)\<rparr>
      in destroyInternal L time DisconnectedError (Some SaveDocumentFailed) waiting s1)"

subsection \<open>Connecting\<close>

text \<open>\<^verbatim>\<open>onSubscribed\<close> from the tracking of presence on.\<close>

definition track_presence ::
  "('d, 'a, 't) library \<Rightarrow> real \<Rightarrow> ('d, 'a, 't) SupabaseProvider \<Rightarrow> ('d, 'a, 't) SupabaseProvider" where
  "track_presence L time s =
     (if \<not> realtime_channel s
      then destroyInternal L time DisconnectedError (Some FailedToTrackPresence) [] s
      else emit ChannelTrack (s\<lparr>pending_tracks := pending_tracks s + 1\<rparr>))"

definition onSubscribed ::
  "('d, 'a, 't) library \<Rightarrow> real \<Rightarrow> ('d, 'a, 't) SupabaseProvider \<Rightarrow> ('d, 'a, 't) SupabaseProvider" where
  "onSubscribed L time s =
     (if \<not> loadDocument_hook (config s) then track_presence L time s
      else emit CallLoadDocument (s\<lparr>pending_loads := pending_loads s + 1\<rparr>))"

definition loadDocument_returned ::
  "('d, 'a, 't) library \<Rightarrow> real \<Rightarrow> bytes option \<Rightarrow> ('d, 'a, 't) SupabaseProvider
    \<Rightarrow> ('d, 'a, 't) SupabaseProvider" where
  "loadDocument_returned L time data s =
     (let s0 = s\<lparr>pending_loads := pending_loads s - 1\<rparr>
      in case data of
           None \<Rightarrow> track_presence L time s0
         | Some d \<Rightarrow>
             (let (d1, threw) = applyUpdateV2 L (doc s0) d;
                  s1 = s0\<lparr>doc := d1\<rparr>;
                  s2 = (if update_handlers s1 then onDocumentUpdate L time d This s1 else s1)
              in if threw
                 then destroyInternal L time DisconnectedError (Some ApplyUpdateFailed) [] s2
                 else track_presence L time (s2\<lparr>previous := Some (encodeStateVector L (doc s2))\<rparr>)))"

definition loadDocument_threw ::
  "('d, 'a, 't) library \<Rightarrow> real \<Rightarrow> ('d, 'a, 't) SupabaseProvider \<Rightarrow> ('d, 'a, 't) SupabaseProvider" where
  "loadDocument_threw L time s =
     destroyInternal L time DisconnectedError (Some LoadDocumentFailed) []
       (s\<lparr>pending_loads := pending_loads s - 1\<rparr>)"

definition track_returned ::
  "('d, 'a, 't) library \<Rightarrow> real \<Rightarrow> bool \<Rightarrow> ('d, 'a, 't) SupabaseProvider
    \<Rightarrow> ('d, 'a, 't) SupabaseProvider" where
  "track_returned L time ok s =
     (let s0 = s\<lparr>pending_tracks := pending_tracks s - 1\<rparr>
      in if \<not> ok
         then destroyInternal L time DisconnectedError (Some FailedToTrackPresence) [] s0
         else emit (EmitStatus Connected None) (s0\<lparr>status := Connected\<rparr>))"

text \<open>The handler of the presence event, given the number of keys of the presence state.\<close>

definition presence_sync ::
  "('d, 'a, 't) library \<Rightarrow> real \<Rightarrow> nat \<Rightarrow> ('d, 'a, 't) SupabaseProvider
    \<Rightarrow> ('d, 'a, 't) SupabaseProvider" where
  "presence_sync L time members s =
     (let s1 = s\<lparr>alone := (members \<le> 1)\<rparr>
      in if \<not> alone s1
         then commitUpdates L (sendUpdate L time resync_request s1)
         else s1)"

subsection \<open>The constructor and the events\<close>

text \<open>
  The constructor validates the configuration first; when that throws, nothing else has
  happened. Otherwise the timers are set up, the handlers registered, the status
  \<open>Connecting\<close> emitted and the channel subscribed. Its arguments beside the
  configuration are the document with its client id, and the fresh awareness and
  throttle states.
\<close>

definition SupabaseProvider_new ::
  "'d \<Rightarrow> nat \<Rightarrow> 'a \<Rightarrow> 't \<Rightarrow> ProviderConfig \<Rightarrow> config_error + ('d, 'a, 't) SupabaseProvider" where
  "SupabaseProvider_new d client a t given =
     (case validateConfig given of
        Inl e \<Rightarrow> Inl e
      | Inr c \<Rightarrow>
          Inr \<lparr>config = c, doc = d, clientID = client, awareness = a, status = Connecting,
               realtime_channel = True, resync_timer = True, previous = None, alone = True,
               savesOutstanding = 0, savesUnclaimed = 0, debouncedSave_due = None,
               documentUpdates = [], awarenessUpdates = [], throttledSend_state = t,
               unload_handler = True, update_handlers = True, pending_loads = 0,
               pending_tracks = 0, pending_saves = [], pending_removes = [],
               effects = [EmitStatus Connecting None, ChannelSubscribe]\<rparr>)"

text \<open>
  What can happen to a provider: a broadcast or presence event of the channel, a status
  of the subscription, the return of a call in flight, a change the application makes to
  the document or the awareness (with the state after it and what the library reports),
  the unload of the page, the expiry of a timer, and \<^verbatim>\<open>destroy()\<close>.
\<close>

datatype ('d, 'a) event =
  Broadcast json
  | PresenceSync nat
  | SUBSCRIBED
  | CHANNEL_ERROR
  | TIMED_OUT
  | CLOSED
  | LoadDocumentReturned "bytes option"
  | LoadDocumentThrew
  | TrackReturned bool
  | SaveDocumentReturned nat
  | SaveDocumentThrew nat
  | RemoveChannelReturned nat bool
  | DocumentUpdated 'd bytes
  | AwarenessUpdated 'a "nat list" "nat list" "nat list"
  | BeforeUnload
  | ResyncExpired
  | DebounceExpired
  | ThrottleExpired
  | Destroy

text \<open>
  One event at a time. An event that cannot occur in a state (the return of a call that
  is not in flight, the expiry of a timer that is not running or not due) leaves it.
\<close>

fun step ::
  "('d, 'a, 't) library \<Rightarrow> real \<Rightarrow> ('d, 'a) event \<Rightarrow> ('d, 'a, 't) SupabaseProvider
    \<Rightarrow> ('d, 'a, 't) SupabaseProvider" where
  "step L time (Broadcast payload) s = receiveUpdate L time payload s"
| "step L time (PresenceSync members) s = presence_sync L time members s"
| "step L time SUBSCRIBED s = onSubscribed L time s"
| "step L time CHANNEL_ERROR s = destroyInternal L time DisconnectedError (Some ChannelError) [] s"
| "step L time TIMED_OUT s =
     destroyInternal L time DisconnectedError (Some RealtimeChannelTimedOut) [] s"
| "step L time CLOSED s = s"
| "step L time (LoadDocumentReturned data) s =
     (if pending_loads s = 0 then s else loadDocument_returned L time data s)"
| "step L time LoadDocumentThrew s =
     (if pending_loads s = 0 then s else loadDocument_threw L time s)"
| "step L time (TrackReturned ok) s =
     (if pending_tracks s = 0 then s else track_returned L time ok s)"
| "step L time (SaveDocumentReturned i) s =
     (if i < length (pending_saves s) then saveDocument_returned L i s else s)"
| "step L time (SaveDocumentThrew i) s =
     (if i < length (pending_saves s) then saveDocument_threw L time i s else s)"
| "step L time (RemoveChannelReturned i ok) s =
     (if i < length (pending_removes s)
      then (let (f, waiting) = pending_removes s ! i
            in removeChannel_returned L f waiting ok
                 (s\<lparr>pending_removes := take i (pending_removes s) @ drop (Suc i) (pending_removes s)\<rparr>))
      else s)"
| "step L time (DocumentUpdated d update) s =
     (let s1 = s\<lparr>doc := d\<rparr>
      in if update_handlers s1 then onDocumentUpdate L time update Other s1 else s1)"
| "step L time (AwarenessUpdated a added updated removed) s =
     (let s1 = s\<lparr>awareness := a\<rparr>
      in if update_handlers s1 then onAwarenessUpdate L time added updated removed Other s1 else s1)"
| "step L time BeforeUnload s = (if unload_handler s then onUnload L time s else s)"
| "step L time ResyncExpired s =
     (if resync_timer s
      then sendUpdate L time resync_request s
      else s)"
| "step L time DebounceExpired s =
     (case debouncedSave_due s of
        None \<Rightarrow> s
      | Some due \<Rightarrow>
          if due \<le> time then saveDocument_call L True [] (s\<lparr>debouncedSave_due := None\<rparr>)
          else s)"
| "step L time ThrottleExpired s =
     (if throttleInterval (config s) = 0 then s
      else
        (let (t, invoke) = throttle_expire L (throttledSend_state s) time;
             s1 = s\<lparr>throttledSend_state := t\<rparr>
         in if invoke then commitUpdates L s1 else s1))"
| "step L time Destroy s = destroyInternal L time Disconnected None [] s"

text \<open>A run: the events in order, each with the time at which it happens.\<close>

fun run ::
  "('d, 'a, 't) library \<Rightarrow> (real \<times> ('d, 'a) event) list \<Rightarrow> ('d, 'a, 't) SupabaseProvider
    \<Rightarrow> ('d, 'a, 't) SupabaseProvider" where
  "run L [] s = s"
| "run L ((time, e) # es) s = run L es (step L time e s)"

subsection \<open>Observations\<close>

text \<open>
  The payloads broadcast, the updates passed to \<^verbatim>\<open>config.saveDocument\<close>, and the
  statuses emitted, each in order.
\<close>

definition sends_in :: "effect list \<Rightarrow> Payload list" where
  "sends_in es = concat (map (\<lambda>e. case e of ChannelSend p \<Rightarrow> [p] | _ \<Rightarrow> []) es)"

definition saves_in :: "effect list \<Rightarrow> bytes list" where
  "saves_in es = concat (map (\<lambda>e. case e of CallSaveDocument b \<Rightarrow> [b] | _ \<Rightarrow> []) es)"

definition statuses_in :: "effect list \<Rightarrow> (ConnectionStatus \<times> provider_error option) list" where
  "statuses_in es = concat (map (\<lambda>e. case e of EmitStatus st err \<Rightarrow> [(st, err)] | _ \<Rightarrow> []) es)"

abbreviation broadcasts :: "('d, 'a, 't) SupabaseProvider \<Rightarrow> Payload list" where
  "broadcasts s \<equiv> sends_in (effects s)"

abbreviation save_calls :: "('d, 'a, 't) SupabaseProvider \<Rightarrow> bytes list" where
  "save_calls s \<equiv> saves_in (effects s)"

abbreviation statuses_emitted ::
  "('d, 'a, 't) SupabaseProvider \<Rightarrow> (ConnectionStatus \<times> provider_error option) list" where
  "statuses_emitted s \<equiv> statuses_in (effects s)"

text \<open>
  The part of a state that enqueueing and sending updates does not touch: all but the
  two queues, the throttle, the awareness, \<open>alone\<close>, and the broadcasts among the
  effects.
\<close>

definition core ::
  "('d, 'a, 't) SupabaseProvider \<Rightarrow>
     (SupabaseProviderConfig \<times> 'd \<times> nat \<times> ConnectionStatus \<times> bool \<times> bool \<times> bytes option) \<times>
     (int \<times> int \<times> real option \<times> bool \<times> bool) \<times>
     (nat \<times> nat \<times> (int \<times> frame list) list \<times> (frame \<times> frame list) list) \<times>
     (bytes list \<times> (ConnectionStatus \<times> provider_error option) list)" where
  "core s =
     ((config s, doc s, clientID s, status s, realtime_channel s, resync_timer s, previous s),
      (savesOutstanding s, savesUnclaimed s, debouncedSave_due s, unload_handler s,
       update_handlers s),
      (pending_loads s, pending_tracks s, pending_saves s, pending_removes s),
      (save_calls s, statuses_emitted s))"

text \<open>
  What a request to save works on: the configuration, the calls of the save callback so
  far, the requests no save has claimed, and the time at which the debounced save is
  due.
\<close>

definition requests ::
  "('d, 'a, 't) SupabaseProvider \<Rightarrow> SupabaseProviderConfig \<times> bytes list \<times> int \<times> real option" where
  "requests s = (config s, save_calls s, savesUnclaimed s, debouncedSave_due s)"




text \<open>Whether the provider is alone, with what it has broadcast.\<close>

definition outgoing :: "('d, 'a, 't) SupabaseProvider \<Rightarrow> bool \<times> Payload list" where
  "outgoing s = (alone s, broadcasts s)"

text \<open>
  The save counters with the numbers of saves claimed by the calls in flight, and the
  invariant that every run keeps: nothing is negative, every call in flight claimed at
  least one save, and the outstanding saves cover the unclaimed and the claimed ones.
\<close>

definition counters :: "('d, 'a, 't) SupabaseProvider \<Rightarrow> int \<times> int \<times> int list" where
  "counters s = (savesOutstanding s, savesUnclaimed s, map fst (pending_saves s))"

definition counters_ok :: "int \<times> int \<times> int list \<Rightarrow> bool" where
  "counters_ok c =
     (case c of (outstanding, unclaimed, claimed) \<Rightarrow>
        0 \<le> unclaimed \<and> list_all (\<lambda>k. 0 < k) claimed \<and>
        unclaimed + sum_list claimed \<le> outstanding)"

text \<open>
  The schema of a payload as the specification words it: an object whose fields
  \<^verbatim>\<open>document\<close> and \<^verbatim>\<open>awareness\<close> are each absent or a non-empty array of
  integers from 0 to 255.
\<close>

definition byte_array_as_specified :: "json \<Rightarrow> bool" where
  "byte_array_as_specified v =
     (\<exists>xs. v = JArr xs \<and> xs \<noteq> [] \<and> (\<forall>x \<in> set xs. \<exists>n::int. x = JNum (of_int n) \<and> 0 \<le> n \<and> n \<le> 255))"

definition payload_as_specified :: "json \<Rightarrow> bool" where
  "payload_as_specified j =
     (\<exists>entries. j = JObj entries \<and>
        (\<forall>key \<in> {''document'', ''awareness''}.
           map_of entries key = None \<or> map_of entries key = Some JUndefined \<or>
           (\<exists>v. map_of entries key = Some v \<and> byte_array_as_specified v)))"

section \<open>Example data\<close>

definition example_row :: "int option \<Rightarrow> RoomRow" where
  "example_row l =
     \<lparr>code = ''abc'', name = ''Room'', language = ''cpp'', starter_code = [],
      groups = [\<lparr>no = Finite 1, group_name = ''Group 1''\<rparr>], owner = ''host'', lock_time = l\<rparr>"

definition example_db :: "int option \<Rightarrow> database" where
  "example_db l = \<lparr>rooms = [''abc'' \<mapsto> example_row l], updates = []\<rparr>"

definition example_request :: "int \<Rightarrow> string option \<Rightarrow> request" where
  "example_request t u =
     \<lparr>now = t, user = u, rooms_select_ok = True, rooms_write_ok = True,
      updates_insert_ok = True, fault_message = []\<rparr>"

definition example_room :: "bool \<Rightarrow> Room" where
  "example_room l =
     \<lparr>code = ''abc'', name = ''Room'', language = ''cpp'', starter_code = [],
      groups = [\<lparr>no = Finite 1, group_name = ''Group 1''\<rparr>], created = ''2024-01-01T00:00:00Z'',
      locked = l\<rparr>"

text \<open>
  A small instance of the libraries: a document is the bytes written so far, an update
  appends its bytes (the single byte 255 does not apply), the state vector is the length,
  an update of the second format is the byte 2 before the bytes it adds, the awareness is
  the list of known clients, and the throttle invokes at once.
\<close>

definition example_encodeV2 :: "bytes \<Rightarrow> update_v2" where
  "example_encodeV2 d = UpdateV2 (2 # d)"

definition example_diffV2 :: "update_v2 \<Rightarrow> bytes \<Rightarrow> update_v2" where
  "example_diffV2 u v = UpdateV2 (2 # drop (Suc (unat (hd v))) (Array_from u))"

definition example_library :: "(bytes, nat list, unit) library" where
  "example_library =
     \<lparr>applyUpdate = (\<lambda>d u. if u = [255] then (d, True) else (d @ u, False)),
      applyUpdateV2 = (\<lambda>d u. if u = [255] then (d, True) else (d @ u, False)),
      encodeStateAsUpdate = (\<lambda>d. d),
      encodeStateAsUpdateV2 = example_encodeV2,
      encodeStateVector = (\<lambda>d. [of_nat (length d)]),
      diffUpdateV2 = example_diffV2,
      mergeUpdates = concat,
      encodeAwarenessUpdate = (\<lambda>a cs. map of_nat cs),
      applyAwarenessUpdate = (\<lambda>a u. (a @ map unat u, False)),
      removeAwarenessStates = (\<lambda>a cs. (filter (\<lambda>c. c \<notin> set cs) a, filter (\<lambda>c. c \<in> set cs) a)),
      getStates_keys = (\<lambda>a. a),
      throttle_call = (\<lambda>t time. (t, True)),
      throttle_expire = (\<lambda>t time. (t, False))\<rparr>"

definition example_given :: "bool option \<Rightarrow> real option \<Rightarrow> ProviderConfig" where
  "example_given r t =
     \<lparr>given_channel = ''abc:1'', given_saveDocument = True, given_loadDocument = False,
      given_resync = r, given_save = None, given_resyncInterval = None,
      given_saveInterval = None, given_throttleInterval = t, given_log = None,
      given_rw = None\<rparr>"

text \<open>The provider of client 7 on an empty document, connected.\<close>

definition example_new :: "ProviderConfig \<Rightarrow> config_error + (bytes, nat list, unit) SupabaseProvider" where
  "example_new g = SupabaseProvider_new [] 7 [7] () g"

definition example_provider :: "bool option \<Rightarrow> (bytes, nat list, unit) SupabaseProvider" where
  "example_provider r =
     run example_library [(0, SUBSCRIBED), (1, TrackReturned True)]
       (projr (example_new (example_given r None)))"




section \<open>Numbers\<close>

lemma bit_length_le: "n < 2 ^ k \<Longrightarrow> bit_length n \<le> k"
proof (induction k arbitrary: n)
  case 0
  then show ?case by (subst bit_length.simps) simp
next
  case (Suc k)
  have "n div 2 < 2 ^ k" using Suc.prems by simp
  then have "bit_length (n div 2) \<le> k" by (rule Suc.IH)
  then show ?case by (subst bit_length.simps) simp
qed

lemma bit_length_eq: "2 ^ k \<le> n \<Longrightarrow> n < 2 ^ Suc k \<Longrightarrow> bit_length n = Suc k"
proof (induction k arbitrary: n)
  case 0
  then have "n = 1" by simp
  then show ?case by (simp add: bit_length.simps)
next
  case (Suc k)
  have "2 ^ k \<le> n div 2" "n div 2 < 2 ^ Suc k" using Suc.prems by simp_all
  then have "bit_length (n div 2) = Suc k" by (rule Suc.IH)
  moreover have "n \<noteq> 0" using Suc.prems by auto
  ultimately show ?case by (subst bit_length.simps) simp
qed

lemma small_is_double:
  assumes "n < 2 ^ 53"
  shows "is_double n"
proof -
  have "bit_length n - 53 = 0" using bit_length_le[OF assms] by simp
  moreover have "n < 2 ^ 1024"
    using assms power_strict_increasing[of 53 1024 "2::nat"] by simp
  ultimately show ?thesis by (simp add: is_double_def round_double_def Let_def)
qed

lemma exact_double:
  assumes "2 ^ k \<le> n" "n < 2 ^ Suc k" "2 ^ (Suc k - 53) dvd n" "k < 1024"
  shows "is_double n"
proof -
  define e where "e = Suc k - 53"
  have e: "bit_length n - 53 = e" using bit_length_eq[OF assms(1,2)] by (simp add: e_def)
  have m: "n mod 2 ^ e = 0" "n div 2 ^ e * 2 ^ e = n"
    using assms(3) by (simp_all add: e_def)
  have "(2::nat) ^ Suc k \<le> 2 ^ 1024" using assms(4) by (intro power_increasing) simp_all
  then have "n < 2 ^ 1024" using assms(2) by simp
  then show ?thesis by (simp add: is_double_def round_double_def Let_def e m)
qed

lemma round_ten_21: "round_double (10 ^ 21) = Finite (10 ^ 21)"
proof -
  have "is_double (10 ^ 21)" by (rule exact_double[of 69]) simp_all
  then show ?thesis by (simp add: is_double_def)
qed

lemma decimal_upper: "n < 10 ^ length (decimal n)"
proof (induction n rule: decimal.induct)
  case (1 n)
  show ?case
  proof (cases "n < 10")
    case True
    then show ?thesis by (subst decimal.simps) simp
  next
    case False
    then have "n div 10 < 10 ^ length (decimal (n div 10))" using 1 by simp
    then have "n < 10 * 10 ^ length (decimal (n div 10))" by simp
    then show ?thesis using False by (subst decimal.simps) simp
  qed
qed

lemma decimal_lower: "0 < n \<Longrightarrow> 10 ^ (length (decimal n) - 1) \<le> n"
proof (induction n rule: decimal.induct)
  case (1 n)
  show ?case
  proof (cases "n < 10")
    case True
    then show ?thesis using 1(2) by (subst decimal.simps) simp
  next
    case False
    then have "10 ^ (length (decimal (n div 10)) - 1) \<le> n div 10" using 1 by simp
    then have "10 * 10 ^ (length (decimal (n div 10)) - 1) \<le> n" by simp
    moreover have "length (decimal (n div 10)) \<noteq> 0" by (subst decimal.simps) simp
    ultimately have "10 ^ length (decimal (n div 10)) \<le> n"
      by (cases "length (decimal (n div 10))") simp_all
    then show ?thesis using False by (subst decimal.simps) simp
  qed
qed

lemma decimal_length_pos: "0 < length (decimal n)"
  by (subst decimal.simps) simp

lemma multiple_below:
  assumes "(p::nat) dvd a" "a \<le> n" "0 < p"
  shows "a \<le> n div p * p"
proof -
  obtain k where k: "a = p * k" using assms(1) by (auto simp: dvd_def)
  then have "k \<le> n div p" using assms(2,3) by (simp add: less_eq_div_iff_mult_less_eq mult.commute)
  then have "p * k \<le> p * (n div p)" by simp
  then show ?thesis using k by (simp add: mult.commute)
qed

lemma multiple_above:
  assumes "(p::nat) dvd b" "n < b" "0 < p"
  shows "n div p * p + p \<le> b"
proof -
  obtain k where k: "b = p * k" using assms(1) by (auto simp: dvd_def)
  then have "n div p < k" using assms(2,3) by (simp add: div_less_iff_less_mult mult.commute)
  then have "Suc (n div p) \<le> k" by simp
  then have "p * Suc (n div p) \<le> p * k" by (rule mult_le_mono2)
  then show ?thesis using k by (simp add: mult.commute)
qed

lemma nearest_bounds:
  assumes "0 < n" "j < length (decimal n)" "x \<in> set (nearest n (10 ^ j))"
  shows "10 ^ (length (decimal n) - 1) \<le> x \<and> x \<le> 10 ^ length (decimal n)"
proof -
  let ?len = "length (decimal n)"
  let ?p = "(10::nat) ^ j"
  have d1: "?p dvd 10 ^ (?len - 1)" using assms(2) by (intro le_imp_power_dvd) simp
  have d2: "?p dvd 10 ^ ?len" using assms(2) by (intro le_imp_power_dvd) simp
  have lo1: "10 ^ (?len - 1) \<le> n div ?p * ?p"
    using d1 decimal_lower[OF assms(1)] by (rule multiple_below) simp
  have lo2: "n div ?p * ?p \<le> n" by simp
  have hi: "n div ?p * ?p + ?p \<le> 10 ^ ?len"
    using d2 decimal_upper[of n] by (rule multiple_above) simp
  have "x = n div ?p * ?p \<or> x = n div ?p * ?p + ?p"
    using assms(3) by (auto simp: nearest_def Let_def split: if_splits)
  then show ?thesis using lo1 lo2 hi decimal_upper[of n] by auto
qed

lemma shortest_from_bounds:
  assumes "0 < n" "j < length (decimal n)"
  shows "10 ^ (length (decimal n) - 1) \<le> shortest_from n j
       \<and> shortest_from n j \<le> 10 ^ length (decimal n)"
  using assms(2)
proof (induction j)
  case 0
  then show ?case using decimal_lower[OF assms(1)] decimal_upper[of n] by simp
next
  case (Suc j)
  show ?case
  proof (cases "find (\<lambda>m. round_double m = Finite n) (nearest n (10 ^ Suc j))")
    case None
    then show ?thesis using Suc by simp
  next
    case (Some m)
    then have "m \<in> set (nearest n (10 ^ Suc j))" by (auto simp: find_Some_iff)
    then show ?thesis using nearest_bounds[OF assms(1) Suc.prems] Some by simp
  qed
qed

lemma shortest_from_reads_back:
  assumes "is_double n"
  shows "round_double (shortest_from n j) = Finite n"
proof (induction j)
  case 0
  then show ?case using assms by (simp add: is_double_def)
next
  case (Suc j)
  show ?case
  proof (cases "find (\<lambda>m. round_double m = Finite n) (nearest n (10 ^ Suc j))")
    case None
    then show ?thesis using Suc by simp
  next
    case (Some m)
    then have "round_double m = Finite n" by (auto simp: find_Some_iff)
    then show ?thesis using Some by simp
  qed
qed

lemma shortest_reads_back: "is_double n \<Longrightarrow> round_double (shortest n) = Finite n"
  by (simp add: shortest_def shortest_from_reads_back)

lemma shortest_from_exact:
  assumes "is_double n" "10 ^ j dvd n"
  shows "shortest_from n j = n"
proof (cases j)
  case 0
  then show ?thesis by simp
next
  case (Suc i)
  have "n div 10 ^ Suc i * 10 ^ Suc i = n" using assms(2) Suc by simp
  then have "nearest n (10 ^ Suc i) = [n, n + 10 ^ Suc i]"
    by (simp add: nearest_def Let_def)
  then show ?thesis using assms(1) Suc by (simp add: is_double_def)
qed

lemma shortest_bounds:
  assumes "0 < n"
  shows "10 ^ (length (decimal n) - 1) \<le> shortest n" "shortest n \<le> 10 ^ length (decimal n)"
  using shortest_from_bounds[OF assms, of "length (decimal n) - 1"] decimal_length_pos[of n]
  by (simp_all add: shortest_def)

lemma shortest_small:
  assumes "0 < n" "n < 10 ^ 21" "is_double n"
  shows "shortest n < 10 ^ 21"
proof -
  have p: "(10::nat) ^ (length (decimal n) - 1) < 10 ^ 21"
    using decimal_lower[OF assms(1)] assms(2) by simp
  have "length (decimal n) - 1 < 21"
    by (rule power_less_imp_less_exp[OF _ p]) simp
  then have "length (decimal n) \<le> 21" by simp
  then have "(10::nat) ^ length (decimal n) \<le> 10 ^ 21" by (intro power_increasing) simp_all
  then have le: "shortest n \<le> 10 ^ 21" using shortest_bounds(2)[OF assms(1)] by simp
  have "shortest n \<noteq> 10 ^ 21"
  proof
    assume "shortest n = 10 ^ 21"
    then have "Finite n = Finite (10 ^ 21)"
      using shortest_reads_back[OF assms(3)] round_ten_21 by simp
    then show False using assms(2) by simp
  qed
  then show ?thesis using le by simp
qed

lemma shortest_large:
  assumes "10 ^ 21 \<le> n"
  shows "10 ^ 21 \<le> shortest n"
proof -
  have pos: "0 < n" using assms by (cases n) simp_all
  have p: "(10::nat) ^ 21 < 10 ^ length (decimal n)"
    using assms decimal_upper[of n] by simp
  have "21 < length (decimal n)"
    by (rule power_less_imp_less_exp[OF _ p]) simp
  then have "21 \<le> length (decimal n) - 1" by simp
  then have "(10::nat) ^ 21 \<le> 10 ^ (length (decimal n) - 1)" by (intro power_increasing) simp_all
  then show ?thesis using shortest_bounds(1)[OF pos] by simp
qed

lemma round_small: "n < 2 ^ 53 \<Longrightarrow> round_double n = Finite n"
  using small_is_double by (simp add: is_double_def)

section \<open>Channel strings round-trip\<close>

lemma is_digit_digit_char:
  assumes "n < 10"
  shows "is_digit (digit_char n)"
  using assms by (simp add: is_digit_def digit_char_def digit_chars_def del: set_simps list.set)

lemma digit_val_digit_char:
  assumes "n < 10"
  shows "digit_val (digit_char n) = n"
proof -
  have d: "distinct digit_chars" and l: "length digit_chars = 10"
    by (simp_all add: digit_chars_def)
  have "takeWhile (\<lambda>d. d \<noteq> digit_chars ! n) digit_chars = take n digit_chars"
  proof (rule takeWhile_eq_take_P_nth)
    fix i
    assume "i < n" "i < length digit_chars"
    then show "digit_chars ! i \<noteq> digit_chars ! n"
      using d l assms by (simp add: nth_eq_iff_index_eq)
  qed simp
  then show ?thesis
    using assms l by (simp add: digit_val_def digit_char_def)
qed

lemma colon_not_code_char: "\<not> is_code_char CHR '':''"
  by (simp add: is_code_char_def)

lemma decimal_digits: "list_all is_digit (decimal n)"
proof (induction n rule: decimal.induct)
  case (1 n)
  show ?case
  proof (cases "n < 10")
    case True
    then show ?thesis by (subst decimal.simps) (simp add: is_digit_digit_char)
  next
    case False
    then have "list_all is_digit (decimal (n div 10))" using 1 by simp
    moreover have "is_digit (digit_char (n mod 10))" by (rule is_digit_digit_char) simp
    ultimately show ?thesis using False by (subst decimal.simps) simp
  qed
qed

lemma decimal_nonempty: "decimal n \<noteq> []"
  by (subst decimal.simps) simp

lemma mathInt_snoc: "mathInt (ds @ [c]) = 10 * mathInt ds + digit_val c"
  by (simp add: mathInt_def)

lemma mathInt_decimal: "mathInt (decimal n) = n"
proof (induction n rule: decimal.induct)
  case (1 n)
  show ?case
  proof (cases "n < 10")
    case True
    then show ?thesis
      by (subst decimal.simps) (simp add: mathInt_def digit_val_digit_char)
  next
    case False
    then have "mathInt (decimal (n div 10)) = n div 10" using 1 by simp
    moreover have "digit_val (digit_char (n mod 10)) = n mod 10"
      by (rule digit_val_digit_char) simp
    ultimately show ?thesis using False
      by (subst decimal.simps) (simp add: mathInt_snoc)
  qed
qed

lemma parse_code_digits:
  assumes "c \<noteq> []" "list_all is_code_char c" "ds \<noteq> []" "list_all is_digit ds"
  shows "parseChannelString (c @ '':'' @ ds) = Inr (c, parseInt ds)"
proof -
  have tw: "takeWhile is_code_char (c @ CHR '':'' # ds) = c"
    using assms(2) by (simp add: takeWhile_tail colon_not_code_char list_all_iff)
  have dw: "dropWhile is_code_char (c @ CHR '':'' # ds) = CHR '':'' # ds"
    using assms(2) by (simp add: dropWhile_append3 colon_not_code_char list_all_iff)
  show ?thesis using assms(1,3,4) by (simp add: parseChannelString_def tw dw)
qed

lemma parse_code_invalid:
  assumes "c \<noteq> []" "list_all is_code_char c" "ds = [] \<or> \<not> list_all is_digit ds"
  shows "parseChannelString (c @ '':'' @ ds) = Inl InvalidChannelString"
proof -
  have tw: "takeWhile is_code_char (c @ CHR '':'' # ds) = c"
    using assms(2) by (simp add: takeWhile_tail colon_not_code_char list_all_iff)
  have dw: "dropWhile is_code_char (c @ CHR '':'' # ds) = CHR '':'' # ds"
    using assms(2) by (simp add: dropWhile_append3 colon_not_code_char list_all_iff)
  show ?thesis using assms(3) by (auto simp: parseChannelString_def tw dw)
qed

lemma parse_abc_1: "parseChannelString ''abc:1'' = Inr (''abc'', Finite 1)"
  by (simp add: parseChannelString_def is_code_char_def is_digit_def parseInt_def mathInt_def
      digit_val_def digit_chars_def round_small)

lemma plain_digits:
  assumes "0 < n" "n < 10 ^ 21" "is_double n"
  shows "Number_toString (Finite n) = decimal (shortest n)"
    and "parseInt (decimal (shortest n)) = Finite n"
  using shortest_small[OF assms] shortest_reads_back[OF assms(3)]
  by (simp_all add: Number_toString_def parseInt_def mathInt_decimal)

lemma exponent_notation:
  assumes "10 ^ 21 \<le> n"
  shows "Number_toString (Finite n) = [] \<or> \<not> list_all is_digit (Number_toString (Finite n))"
proof -
  have e: "\<not> is_digit CHR ''e''" by (simp add: is_digit_def digit_chars_def)
  have m: "\<not> shortest n < 10 ^ 21" using shortest_large[OF assms] by simp
  show ?thesis
  proof (cases "strip_zeros (decimal (shortest n))")
    case Nil
    then show ?thesis using m by (simp add: Number_toString_def)
  next
    case (Cons d ds)
    then have "CHR ''e'' \<in> set (Number_toString (Finite n))"
      using m by (simp add: Number_toString_def)
    then show ?thesis using e by (auto simp: list_all_iff)
  qed
qed

text \<open>
  C10, as stated, fails: the number \<open>10 ^ 21\<close> is a positive integer, the room code
  \<^verbatim>\<open>abc\<close> is alphanumeric, and the channel string of the two is
  \<^verbatim>\<open>abc:1e+21\<close>, which \<^verbatim>\<open>parseChannelString\<close> rejects.
\<close>

theorem channelString_roundtrip_counterexample:
  "''abc'' \<noteq> [] \<and> list_all is_code_char ''abc'' \<and> (0::nat) < 10 ^ 21 \<and> is_double (10 ^ 21)
   \<and> channelString (RoomCode ''abc'') (GroupNo (Finite (10 ^ 21))) = ''abc:1e+21''
   \<and> parseChannelString (channelString (RoomCode ''abc'') (GroupNo (Finite (10 ^ 21))))
       = Inl InvalidChannelString"
proof -
  have d: "is_double (10 ^ 21)"
    using round_ten_21 by (simp add: is_double_def)
  have l: "length (decimal (10 ^ 21)) - 1 = 21"
    by (simp add: decimal.simps)
  have s: "shortest (10 ^ 21) = 10 ^ 21"
    unfolding shortest_def l using d by (rule shortest_from_exact) simp
  have "Number_toString (Finite (10 ^ 21)) = ''1e+21''"
    unfolding Number_toString_def Number.case s Let_def
    by (simp add: digit_char_def digit_chars_def strip_zeros_def decimal.simps)
  then have "channelString (RoomCode ''abc'') (GroupNo (Finite (10 ^ 21))) = ''abc:1e+21''"
    by (simp add: channelString_def)
  moreover have "parseChannelString ''abc:1e+21'' = Inl InvalidChannelString"
    by (simp add: parseChannelString_def is_code_char_def is_digit_def digit_chars_def)
  moreover have "list_all is_code_char ''abc''"
    by (simp add: is_code_char_def)
  ultimately show ?thesis using d by simp
qed

text \<open>
  C10, amended: for every non-empty room code of characters of \<^verbatim>\<open>[a-zA-Z0-9-]\<close>
  and every group number that is a positive integer (a number of the language, that is a
  double), given as a string or number or as a room or group object: when the group
  number is below \<open>10 ^ 21\<close>, \<^verbatim>\<open>parseChannelString(channelString(code, group))\<close>
  returns the pair of the code and the group number; from \<open>10 ^ 21\<close> on, where the
  language prints a number in exponent notation, it throws "Invalid channel string".
\<close>

theorem channelString_roundtrip:
  assumes "room_code = (case room of RoomObject r \<Rightarrow> code r | RoomCode c \<Rightarrow> c)"
    and "Finite n = (case grp of GroupObject g \<Rightarrow> no g | GroupNo k \<Rightarrow> k)"
    and "room_code \<noteq> []" and "list_all is_code_char room_code"
    and "0 < n" and "is_double n"
  shows "(n < 10 ^ 21 \<longrightarrow>
            parseChannelString (channelString room grp) = Inr (room_code, Finite n))
    \<and> (10 ^ 21 \<le> n \<longrightarrow>
            parseChannelString (channelString room grp) = Inl InvalidChannelString)"
proof -
  have c: "channelString room grp = room_code @ '':'' @ Number_toString (Finite n)"
    using assms(1) assms(2)[symmetric] by (simp add: channelString_def)
  have small: "parseChannelString (channelString room grp) = Inr (room_code, Finite n)"
    if "n < 10 ^ 21"
  proof -
    note p = plain_digits[OF assms(5) that assms(6)]
    show ?thesis
      unfolding c p(1)
      using parse_code_digits[OF assms(3,4) decimal_nonempty decimal_digits, of "shortest n"]
      by (simp add: p(2))
  qed
  have large: "parseChannelString (channelString room grp) = Inl InvalidChannelString"
    if "10 ^ 21 \<le> n"
    unfolding c using assms(3,4) exponent_notation[OF that] by (rule parse_code_invalid)
  show ?thesis using small large by simp
qed

theorem channelString_roundtrip_witness:
  "parseChannelString (channelString (RoomCode ''abc'') (GroupNo (Finite 12)))
       = Inr (''abc'', Finite 12)
   \<and> parseChannelString
        (channelString (RoomObject (example_room False))
           (GroupObject \<lparr>no = Finite 7, group_name = ''G''\<rparr>))
       = Inr (''abc'', Finite 7)
   \<and> parseChannelString (channelString (RoomCode ''abc'') (GroupNo (Finite (2 * 10 ^ 21))))
       = Inl InvalidChannelString"
proof -
  have c: "list_all is_code_char ''abc''"
    by (simp add: is_code_char_def)
  have d: "is_double 12" "is_double 7"
    by (rule small_is_double, simp)+
  have "is_double (2 * 10 ^ 21)" by (rule exact_double[of 70]) simp_all
  then have 3: "parseChannelString (channelString (RoomCode ''abc'') (GroupNo (Finite (2 * 10 ^ 21))))
       = Inl InvalidChannelString"
    using channelString_roundtrip[of "''abc''" "RoomCode ''abc''" "2 * 10 ^ 21"
        "GroupNo (Finite (2 * 10 ^ 21))"] c
    by simp
  have 1: "parseChannelString (channelString (RoomCode ''abc'') (GroupNo (Finite 12)))
       = Inr (''abc'', Finite 12)"
    using channelString_roundtrip[of "''abc''" "RoomCode ''abc''" 12 "GroupNo (Finite 12)"] c d(1)
    by simp
  have 2: "parseChannelString
        (channelString (RoomObject (example_room False))
           (GroupObject \<lparr>no = Finite 7, group_name = ''G''\<rparr>))
       = Inr (''abc'', Finite 7)"
    using channelString_roundtrip[of "''abc''" "RoomObject (example_room False)" 7
        "GroupObject \<lparr>no = Finite 7, group_name = ''G''\<rparr>"] c d(2)
    by (simp add: example_room_def)
  show ?thesis using 1 2 3 by simp
qed

section \<open>Saving a document update\<close>

text \<open>
  C1: when the channel names an existing room that has the channel's group,
  \<^verbatim>\<open>saveDocument\<close> never fails with "Room is locked" on an unlocked room, nor for
  the room's owner; for anyone else on a locked room it fails with "Room is locked"
  exactly when the time of the save minus the lock time is more than 5000 ms. When the
  update decodes and the insert succeeds, not failing so is succeeding.
\<close>

theorem saveDocument_authorization:
  assumes "parseChannelString chan = Inr (c, g)"
    and "rooms_select_ok req"
    and "rooms db c = Some room"
    and "list_ex (\<lambda>x. no x = g) (groups room)"
  shows "(lock_time room = None \<longrightarrow>
            fst (saveDocument dec req db chan update) \<noteq> Inl RoomIsLocked)
    \<and> (user req = Some (owner room) \<longrightarrow>
            fst (saveDocument dec req db chan update) \<noteq> Inl RoomIsLocked)
    \<and> (\<forall>t. lock_time room = Some t \<and> user req \<noteq> Some (owner room) \<longrightarrow>
            (fst (saveDocument dec req db chan update) \<noteq> Inl RoomIsLocked) = (now req - t \<le> 5000))
    \<and> (dec (Buffer_from update) \<and> updates_insert_ok req \<longrightarrow>
            fst (saveDocument dec req db chan update) = Inr () \<or>
            fst (saveDocument dec req db chan update) = Inl RoomIsLocked)"
  using assms
  by (auto simp: saveDocument_def LockSaveGracePeriodMs_def Let_def split: option.splits)

theorem saveDocument_authorization_witness:
  "fst (saveDocument (\<lambda>b. True) (example_request 1004999 (Some ''guest'')) (example_db (Some 1000000))
          ''abc:1'' [1, 2]) = Inr ()
   \<and> fst (saveDocument (\<lambda>b. True) (example_request 1005001 (Some ''guest'')) (example_db (Some 1000000))
          ''abc:1'' [1, 2]) = Inl RoomIsLocked
   \<and> fst (saveDocument (\<lambda>b. True) (example_request 1999999 (Some ''host'')) (example_db (Some 1000000))
          ''abc:1'' [1, 2]) = Inr ()
   \<and> fst (saveDocument (\<lambda>b. True) (example_request 1999999 None) (example_db None)
          ''abc:1'' [1, 2]) = Inr ()"
proof -
  have r: "rooms (example_db l) ''abc'' = Some (example_row l)" for l
    by (simp add: example_db_def)
  have g: "list_ex (\<lambda>x. no x = Finite 1) (groups (example_row l))" for l
    by (simp add: example_row_def)
  have s: "rooms_select_ok (example_request t u)" for t u
    by (simp add: example_request_def)
  have th: "(lock_time (example_row l) = None \<longrightarrow>
            fst (saveDocument (\<lambda>b. True) (example_request t u) (example_db l) ''abc:1'' [1, 2]) \<noteq> Inl RoomIsLocked)
    \<and> (user (example_request t u) = Some (owner (example_row l)) \<longrightarrow>
            fst (saveDocument (\<lambda>b. True) (example_request t u) (example_db l) ''abc:1'' [1, 2]) \<noteq> Inl RoomIsLocked)
    \<and> (\<forall>ta. lock_time (example_row l) = Some ta \<and> user (example_request t u) \<noteq> Some (owner (example_row l)) \<longrightarrow>
            (fst (saveDocument (\<lambda>b. True) (example_request t u) (example_db l) ''abc:1'' [1, 2]) \<noteq> Inl RoomIsLocked)
              = (now (example_request t u) - ta \<le> 5000))
    \<and> (True \<and> updates_insert_ok (example_request t u) \<longrightarrow>
            fst (saveDocument (\<lambda>b. True) (example_request t u) (example_db l) ''abc:1'' [1, 2]) = Inr () \<or>
            fst (saveDocument (\<lambda>b. True) (example_request t u) (example_db l) ''abc:1'' [1, 2]) = Inl RoomIsLocked)"
    for t u l
    by (rule saveDocument_authorization[OF parse_abc_1 s r g])
  have pr: "user (example_request t u) = u" "now (example_request t u) = t"
    "updates_insert_ok (example_request t u)" "lock_time (example_row l) = l"
    "owner (example_row l) = ''host''" for t u l
    by (simp_all add: example_request_def example_row_def)
  have 1: "fst (saveDocument (\<lambda>b. True) (example_request 1004999 (Some ''guest''))
      (example_db (Some 1000000)) ''abc:1'' [1, 2]) = Inr ()"
    using th[of "Some 1000000" 1004999 "Some ''guest''"] by (auto simp: pr)
  have 2: "fst (saveDocument (\<lambda>b. True) (example_request 1005001 (Some ''guest''))
      (example_db (Some 1000000)) ''abc:1'' [1, 2]) = Inl RoomIsLocked"
    using th[of "Some 1000000" 1005001 "Some ''guest''"] by (auto simp: pr)
  have 3: "fst (saveDocument (\<lambda>b. True) (example_request 1999999 (Some ''host''))
      (example_db (Some 1000000)) ''abc:1'' [1, 2]) = Inr ()"
    using th[of "Some 1000000" 1999999 "Some ''host''"] by (auto simp: pr)
  have 4: "fst (saveDocument (\<lambda>b. True) (example_request 1999999 None)
      (example_db None) ''abc:1'' [1, 2]) = Inr ()"
    using th[of None 1999999 None] by (auto simp: pr)
  show ?thesis using 1 2 3 4 by simp
qed

text \<open>
  C2: \<^verbatim>\<open>saveDocument\<close> returns normally exactly when every check passes (the channel
  parses, the query for the room succeeds and finds a room, the room has the group, the
  write is authorized, the update decodes, the insert succeeds), and then the table of
  updates has exactly one more row, the channel with the encoded bytes; otherwise it
  throws and the database is unchanged. A missing room throws "No such room", a missing
  group "No such group in room", and an update that does not decode throws.
\<close>

theorem saveDocument_store:
  "(fst (saveDocument dec req db chan update) = Inr () \<longleftrightarrow>
      (\<exists>c g room. parseChannelString chan = Inr (c, g) \<and> rooms_select_ok req \<and>
         rooms db c = Some room \<and> list_ex (\<lambda>x. no x = g) (groups room) \<and>
         \<not> (\<exists>t. lock_time room = Some t \<and> user req \<noteq> Some (owner room) \<and>
                now req - t > LockSaveGracePeriodMs) \<and>
         dec (Buffer_from update) \<and> updates_insert_ok req))
   \<and> (fst (saveDocument dec req db chan update) = Inr () \<longrightarrow>
         snd (saveDocument dec req db chan update) =
           db\<lparr>updates := updates db @ [(chan, encodeBytes (Buffer_from update))]\<rparr>)
   \<and> (fst (saveDocument dec req db chan update) \<noteq> Inr () \<longrightarrow>
         snd (saveDocument dec req db chan update) = db)
   \<and> (\<forall>c g. parseChannelString chan = Inr (c, g) \<and> rooms_select_ok req \<and> rooms db c = None \<longrightarrow>
         fst (saveDocument dec req db chan update) = Inl NoSuchRoom)
   \<and> (\<forall>c g room. parseChannelString chan = Inr (c, g) \<and> rooms_select_ok req \<and>
         rooms db c = Some room \<and> \<not> list_ex (\<lambda>x. no x = g) (groups room) \<longrightarrow>
         fst (saveDocument dec req db chan update) = Inl NoSuchGroupInRoom)
   \<and> (\<not> dec (Buffer_from update) \<longrightarrow>
         (\<exists>e. fst (saveDocument dec req db chan update) = Inl e))"
  by (auto simp: saveDocument_def Let_def split: option.splits sum.splits prod.splits)

theorem saveDocument_store_witness:
  "saveDocument (\<lambda>b. True) (example_request 5 None) (example_db None) ''abc:1'' [1, 511]
     = (Inr (), (example_db None)\<lparr>updates := [(''abc:1'', CHR 0x5C # ''x01ff'')]\<rparr>)
   \<and> saveDocument (\<lambda>b. True) (example_request 5 None) (example_db None) ''abd:1'' [1, 511]
     = (Inl NoSuchRoom, example_db None)
   \<and> saveDocument (\<lambda>b. True) (example_request 5 None) (example_db None) ''abc:2'' [1, 511]
     = (Inl NoSuchGroupInRoom, example_db None)
   \<and> snd (saveDocument (\<lambda>b. False) (example_request 5 None) (example_db None) ''abc:1'' [1, 511])
     = example_db None"
proof -
  let ?req = "example_request 5 None" and ?db = "example_db None"
  have p2: "parseChannelString ''abd:1'' = Inr (''abd'', Finite 1)"
    by (simp add: parseChannelString_def is_code_char_def is_digit_def parseInt_def mathInt_def
        digit_val_def digit_chars_def round_small)
  have p3: "parseChannelString ''abc:2'' = Inr (''abc'', Finite 2)"
    by (simp add: parseChannelString_def is_code_char_def is_digit_def parseInt_def mathInt_def
        digit_val_def digit_chars_def round_small)
  have e: "encodeBytes (Buffer_from [1, 511]) = CHR 0x5C # ''x01ff''"
    by (simp add: encodeBytes_def Buffer_from_def hex_digit_def)
  have u: "updates ?db = []"
    by (simp add: example_db_def)
  have s: "rooms_select_ok ?req" "updates_insert_ok ?req" "user ?req = None"
    by (simp_all add: example_request_def)
  have r: "rooms ?db ''abc'' = Some (example_row None)" "rooms ?db ''abd'' = None"
    by (simp_all add: example_db_def)
  have g: "list_ex (\<lambda>x. no x = Finite 1) (groups (example_row None))"
    "\<not> list_ex (\<lambda>x. no x = Finite 2) (groups (example_row None))" "lock_time (example_row None) = None"
    by (simp_all add: example_row_def)
  note th = saveDocument_store[of _ ?req ?db _ "[1, 511]"]
  note iff = th[THEN conjunct1]
  note app = th[THEN conjunct2, THEN conjunct1, rule_format]
  note unch = th[THEN conjunct2, THEN conjunct2, THEN conjunct1, rule_format]
  note noroom = th[THEN conjunct2, THEN conjunct2, THEN conjunct2, THEN conjunct1, rule_format]
  note nogroup = th[THEN conjunct2, THEN conjunct2, THEN conjunct2, THEN conjunct2, THEN conjunct1, rule_format]
  note nodec = th[THEN conjunct2, THEN conjunct2, THEN conjunct2, THEN conjunct2, THEN conjunct2, rule_format]
  have "\<exists>c g room. parseChannelString ''abc:1'' = Inr (c, g) \<and> rooms_select_ok ?req \<and>
         rooms ?db c = Some room \<and> list_ex (\<lambda>x. no x = g) (groups room) \<and>
         \<not> (\<exists>t. lock_time room = Some t \<and> user ?req \<noteq> Some (owner room) \<and>
                now ?req - t > LockSaveGracePeriodMs) \<and>
         (\<lambda>b. True) (Buffer_from [1, 511]) \<and> updates_insert_ok ?req"
    by (intro exI[of _ "''abc''"] exI[of _ "Finite 1"] exI[of _ "example_row None"])
      (simp add: parse_abc_1 s r g del: One_nat_def)
  then have f1: "fst (saveDocument (\<lambda>b. True) ?req ?db ''abc:1'' [1, 511]) = Inr ()"
    using iff[of "\<lambda>b. True" "''abc:1''"] by blast
  have 1: "saveDocument (\<lambda>b. True) ?req ?db ''abc:1'' [1, 511]
     = (Inr (), ?db\<lparr>updates := [(''abc:1'', CHR 0x5C # ''x01ff'')]\<rparr>)"
    using f1 app[OF f1] by (simp add: prod_eq_iff e u)
  have f2: "fst (saveDocument (\<lambda>b. True) ?req ?db ''abd:1'' [1, 511]) = Inl NoSuchRoom"
    by (rule noroom[of _ "''abd''" "Finite 1"]) (simp add: p2 s r)
  have 2: "saveDocument (\<lambda>b. True) ?req ?db ''abd:1'' [1, 511] = (Inl NoSuchRoom, ?db)"
    using f2 unch[of "\<lambda>b. True" "''abd:1''"] by (simp add: prod_eq_iff)
  have f3: "fst (saveDocument (\<lambda>b. True) ?req ?db ''abc:2'' [1, 511]) = Inl NoSuchGroupInRoom"
    by (rule nogroup[of _ "''abc''" "Finite 2" "example_row None"]) (simp add: p3 s r g)
  have 3: "saveDocument (\<lambda>b. True) ?req ?db ''abc:2'' [1, 511] = (Inl NoSuchGroupInRoom, ?db)"
    using f3 unch[of "\<lambda>b. True" "''abc:2''"] by (simp add: prod_eq_iff)
  obtain e' where "fst (saveDocument (\<lambda>b. False) ?req ?db ''abc:1'' [1, 511]) = Inl e'"
    using nodec[of "\<lambda>b. False"] by blast
  then have 4: "snd (saveDocument (\<lambda>b. False) ?req ?db ''abc:1'' [1, 511]) = ?db"
    using unch[of "\<lambda>b. False" "''abc:1''"] by simp
  show ?thesis using 1 2 3 4 by simp
qed

section \<open>Locking a room\<close>

text \<open>
  C9: when \<^verbatim>\<open>upsertRoom\<close> updates an existing room (the room validates, the user
  is signed in and owns the existing row, the database calls succeed), the stored lock
  time is the existing one when the new state is locked and the row already had a lock
  time, the current time when the new state is locked and the row had none, and null
  when the new state is not locked.
\<close>

theorem upsertRoom_lock_time:
  assumes "safeParse room_in = Inr room"
    and "user req = Some u"
    and "rooms_select_ok req" and "rooms_write_ok req"
    and "rooms db (code room) = Some existing"
    and "owner existing = u"
  shows "\<exists>row. rooms (snd (upsertRoom safeParse req db room_in)) (code room) = Some row
    \<and> (locked room \<and> lock_time existing \<noteq> None \<longrightarrow> lock_time row = lock_time existing)
    \<and> (locked room \<and> lock_time existing = None \<longrightarrow> lock_time row = Some (now req))
    \<and> (\<not> locked room \<longrightarrow> lock_time row = None)"
  using assms
  by (auto simp: upsertRoom_def upsertRoom_row_def Let_def split: option.splits)

theorem upsertRoom_lock_time_witness:
  "map_option lock_time
     (rooms (snd (upsertRoom Inr (example_request 2000 (Some ''host'')) (example_db (Some 1000))
        (example_room True))) ''abc'') = Some (Some 1000)
   \<and> map_option lock_time
     (rooms (snd (upsertRoom Inr (example_request 2000 (Some ''host'')) (example_db None)
        (example_room True))) ''abc'') = Some (Some 2000)
   \<and> map_option lock_time
     (rooms (snd (upsertRoom Inr (example_request 2000 (Some ''host'')) (example_db (Some 1000))
        (example_room False))) ''abc'') = Some None"
proof -
  let ?req = "example_request 2000 (Some ''host'')"
  have c: "code (example_room l) = ''abc''" "locked (example_room l) = l" for l
    by (simp_all add: example_room_def)
  have r: "rooms (example_db t) (code (example_room l)) = Some (example_row t)" for t l
    by (simp add: example_db_def c)
  have q: "user ?req = Some ''host''" "rooms_select_ok ?req" "rooms_write_ok ?req" "now ?req = 2000"
    by (simp_all add: example_request_def)
  have o: "owner (example_row t) = ''host''" "lock_time (example_row t) = t" for t
    by (simp_all add: example_row_def)
  have th: "\<exists>row. rooms (snd (upsertRoom Inr ?req (example_db t) (example_room l))) ''abc'' = Some row
    \<and> (l \<and> t \<noteq> None \<longrightarrow> lock_time row = t)
    \<and> (l \<and> t = None \<longrightarrow> lock_time row = Some 2000)
    \<and> (\<not> l \<longrightarrow> lock_time row = None)" for t l
    using upsertRoom_lock_time[of Inr "example_room l" "example_room l" ?req "''host''" "example_db t"
        "example_row t", OF refl q(1) q(2) q(3) r o(1)]
    by (simp add: c o q)
  show ?thesis
    using th[of "Some 1000" True] th[of None True] th[of "Some 1000" False]
    by auto
qed
section \<open>The provider: helper facts\<close>

lemma example_connected:
  "example_provider r =
     \<lparr>config = \<lparr>channel = ''abc:1'', saveDocument_hook = True, loadDocument_hook = False,
         resync = (case r of None \<Rightarrow> True | Some b \<Rightarrow> b), save = True, resyncInterval = 20000,
         saveInterval = 2500, throttleInterval = 0, log_flag = True, rw = ReadWrite\<rparr>,
       doc = [], clientID = 7, awareness = [7], status = Connected,
       realtime_channel = True, resync_timer = True, previous = None, alone = True,
       savesOutstanding = 0, savesUnclaimed = 0, debouncedSave_due = None,
       documentUpdates = [], awarenessUpdates = [], throttledSend_state = (),
       unload_handler = True, update_handlers = True, pending_loads = 0,
       pending_tracks = 0, pending_saves = [], pending_removes = [],
       effects = [EmitStatus Connecting None, ChannelSubscribe, ChannelTrack,
                  EmitStatus Connected None]\<rparr>"
  by (simp add: example_provider_def example_new_def SupabaseProvider_new_def validateConfig_def example_given_def
      defaults_def DefaultResyncMs_def DefaultSaveMs_def onSubscribed_def track_presence_def
      track_returned_def emit_def Let_def split: option.split)

lemma update_v2_code [code abstype]: "UpdateV2 (Array_from x) = x"
  by (rule Array_from_inverse)

lemma example_encodeV2_bytes [simp, code abstract]: "Array_from (example_encodeV2 d) = 2 # d"
  by (simp add: example_encodeV2_def UpdateV2_inverse)

lemma example_diffV2_bytes [simp, code abstract]:
  "Array_from (example_diffV2 u v) = 2 # drop (Suc (unat (hd v))) (Array_from u)"
  by (simp add: example_diffV2_def UpdateV2_inverse)

lemma update_v2_not_empty [simp]: "Array_from x \<noteq> [0, 0]"
  using Array_from[of x] by simp

lemma save_diff_not_empty [simp]: "save_diff L d p \<noteq> [0, 0]"
  by (simp add: save_diff_def Let_def)

lemma onDocumentUpdate_This [simp]: "onDocumentUpdate L time u This s = s"
  by (simp add: onDocumentUpdate_def)

lemma onAwarenessUpdate_This [simp]: "onAwarenessUpdate L time x y z This s = s"
  by (simp add: onAwarenessUpdate_def)

lemma run_append: "run L (es @ es') s = run L es' (run L es s)"
  by (induction es arbitrary: s) auto

section \<open>Construction\<close>

text \<open>
  C8, as stated, fails: a configuration whose only fault is the throttle interval
  \<open>- 1\<close> is accepted; the constructor goes on to emit \<open>Connecting\<close> and to
  subscribe to the channel.
\<close>

theorem constructor_fails_fast_counterexample:
  "given_throttleInterval (example_given None (Some (- 1))) = Some (- 1) \<and> (- 1 :: real) < 0
   \<and> map_sum id effects (example_new (example_given None (Some (- 1))))
       = Inr [EmitStatus Connecting None, ChannelSubscribe]"
  by (simp add: example_new_def SupabaseProvider_new_def validateConfig_def example_given_def
      defaults_def DefaultResyncMs_def DefaultSaveMs_def)

text \<open>
  C8, amended: construction throws, before anything else happens, for every
  configuration whose resync interval or save interval is given and not positive; the
  throttle interval is not validated, and a configuration whose resync and save
  intervals are positive or left to their defaults constructs a provider that emits
  \<open>Connecting\<close>, subscribes, and keeps the throttle interval it was given.
\<close>

theorem constructor_fails_fast:
  "(\<forall>r. given_resyncInterval g = Some r \<and> r \<le> 0 \<longrightarrow>
        SupabaseProvider_new d c a t g = Inl ResyncIntervalMustBePositive)
   \<and> (\<forall>v. given_saveInterval g = Some v \<and> v \<le> 0 \<longrightarrow>
        SupabaseProvider_new d c a t g = Inl SaveIntervalMustBePositive \<or>
        SupabaseProvider_new d c a t g = Inl ResyncIntervalMustBePositive)
   \<and> (\<not> (\<exists>r. given_resyncInterval g = Some r \<and> r \<le> 0) \<and>
       \<not> (\<exists>v. given_saveInterval g = Some v \<and> v \<le> 0) \<longrightarrow>
        (\<exists>s. SupabaseProvider_new d c a t g = Inr s \<and>
             effects s = [EmitStatus Connecting None, ChannelSubscribe] \<and>
             throttleInterval (config s) = defaults (given_throttleInterval g) 0))"
  by (auto simp: SupabaseProvider_new_def validateConfig_def defaults_def Let_def
      DefaultResyncMs_def DefaultSaveMs_def split: option.splits)

theorem constructor_fails_fast_witness:
  "example_new ((example_given None None)\<lparr>given_resyncInterval := Some 0\<rparr>)
     = Inl ResyncIntervalMustBePositive
   \<and> example_new ((example_given None None)\<lparr>given_saveInterval := Some (- 5)\<rparr>)
     = Inl SaveIntervalMustBePositive
   \<and> map_sum id (\<lambda>s. throttleInterval (config s))
        (example_new (example_given None (Some (- 1)))) = Inr (- 1)"
proof -
  note th = constructor_fails_fast[of _ "[]::bytes" 7 "[7::nat]" "()", folded example_new_def]
  have 1: "example_new ((example_given None None)\<lparr>given_resyncInterval := Some 0\<rparr>)
     = Inl ResyncIntervalMustBePositive"
    by (rule th[THEN conjunct1, rule_format, of _ 0]) simp
  have "example_new ((example_given None None)\<lparr>given_saveInterval := Some (- 5)\<rparr>)
       = Inl SaveIntervalMustBePositive \<or>
     example_new ((example_given None None)\<lparr>given_saveInterval := Some (- 5)\<rparr>)
       = Inl ResyncIntervalMustBePositive"
    by (rule th[THEN conjunct2, THEN conjunct1, rule_format, of _ "- 5"]) simp
  moreover have "\<not> defaults (given_resyncInterval ((example_given None None)\<lparr>given_saveInterval := Some (- 5)\<rparr>)) DefaultResyncMs \<le> 0"
    by (simp add: example_given_def defaults_def DefaultResyncMs_def)
  ultimately have 2: "example_new ((example_given None None)\<lparr>given_saveInterval := Some (- 5)\<rparr>)
     = Inl SaveIntervalMustBePositive"
    by (auto simp: example_new_def SupabaseProvider_new_def validateConfig_def Let_def
        split: sum.splits if_splits)
  have "\<exists>s. example_new (example_given None (Some (- 1))) = Inr s \<and>
             effects s = [EmitStatus Connecting None, ChannelSubscribe] \<and>
             throttleInterval (config s) = defaults (given_throttleInterval (example_given None (Some (- 1)))) 0"
    by (rule th[THEN conjunct2, THEN conjunct2, rule_format]) (simp add: example_given_def)
  then have 3: "map_sum id (\<lambda>s. throttleInterval (config s))
        (example_new (example_given None (Some (- 1)))) = Inr (- 1)"
    by (auto simp: example_given_def defaults_def)
  show ?thesis using 1 2 3 by simp
qed

section \<open>The save counters\<close>

lemma counters_update [simp]:
  "counters (s\<lparr>config := x1\<rparr>) = counters s"
  "counters (s\<lparr>doc := x2\<rparr>) = counters s"
  "counters (s\<lparr>clientID := x3\<rparr>) = counters s"
  "counters (s\<lparr>awareness := x4\<rparr>) = counters s"
  "counters (s\<lparr>status := x5\<rparr>) = counters s"
  "counters (s\<lparr>realtime_channel := x6\<rparr>) = counters s"
  "counters (s\<lparr>resync_timer := x7\<rparr>) = counters s"
  "counters (s\<lparr>previous := x8\<rparr>) = counters s"
  "counters (s\<lparr>alone := x9\<rparr>) = counters s"
  "counters (s\<lparr>debouncedSave_due := y1\<rparr>) = counters s"
  "counters (s\<lparr>documentUpdates := y2\<rparr>) = counters s"
  "counters (s\<lparr>awarenessUpdates := y3\<rparr>) = counters s"
  "counters (s\<lparr>throttledSend_state := y4\<rparr>) = counters s"
  "counters (s\<lparr>unload_handler := y5\<rparr>) = counters s"
  "counters (s\<lparr>update_handlers := y6\<rparr>) = counters s"
  "counters (s\<lparr>pending_loads := y7\<rparr>) = counters s"
  "counters (s\<lparr>pending_tracks := y8\<rparr>) = counters s"
  "counters (s\<lparr>pending_removes := y9\<rparr>) = counters s"
  "counters (s\<lparr>effects := z1\<rparr>) = counters s"
  by (simp_all add: counters_def)

lemma counters_emit [simp]: "counters (emit e s) = counters s"
  by (simp add: emit_def)

lemma counters_commitUpdates [simp]: "counters (commitUpdates L s) = counters s"
  by (simp add: commitUpdates_def Let_def)

lemma counters_throttledSend [simp]: "counters (throttledSend L time s) = counters s"
  by (simp add: throttledSend_def Let_def split: prod.split)

lemma counters_sendUpdate [simp]: "counters (sendUpdate L time u s) = counters s"
  by (simp add: sendUpdate_def Let_def split: option.split)

lemma counters_onAwarenessUpdate [simp]:
  "counters (onAwarenessUpdate L time x y z orig s) = counters s"
  by (simp add: onAwarenessUpdate_def Let_def)

lemma counters_onUnload [simp]: "counters (onUnload L time s) = counters s"
  by (simp add: onUnload_def Let_def split: prod.split)

lemma counters_destroy_finish [simp]: "counters (destroy_finish L f s) = counters s"
  by (simp add: destroy_finish_def Let_def)

lemma counters_resume [simp]: "counters (resume L waiting s) = counters s"
  by (induction waiting arbitrary: s) (simp_all add: Let_def)

lemma counters_removeChannel_returned [simp]:
  "counters (removeChannel_returned L f waiting ok s) = counters s"
  by (simp add: removeChannel_returned_def Let_def)

lemma counters_receive_awareness [simp]: "counters (receive_awareness L time j s) = counters s"
  by (simp add: receive_awareness_def Let_def split: option.split)

lemma counters_receiveUpdate [simp]: "counters (receiveUpdate L time j s) = counters s"
  by (simp add: receiveUpdate_def Let_def split: option.split)

lemma counters_presence_sync [simp]: "counters (presence_sync L time n s) = counters s"
  by (simp add: presence_sync_def Let_def)

lemma ok_requestSave: "counters_ok (counters s) \<Longrightarrow> counters_ok (counters (requestSave time s))"
  by (simp add: requestSave_def Let_def counters_def counters_ok_def emit_def)

lemma ok_onDocumentUpdate:
  "counters_ok (counters s) \<Longrightarrow> counters_ok (counters (onDocumentUpdate L time u orig s))"
  by (simp add: onDocumentUpdate_def ok_requestSave)

lemma counters_onSaved:
  "counters (onSaved k s) = (savesOutstanding s - k, savesUnclaimed s, map fst (pending_saves s))"
  by (simp add: onSaved_def Let_def counters_def emit_def)

lemma ok_saveDocument_call:
  "counters_ok (counters s) \<Longrightarrow> counters_ok (counters (saveDocument_call L rc waiting s))"
  by (simp add: saveDocument_call_def Let_def counters_onSaved)
     (auto simp: counters_def counters_ok_def emit_def)

lemma ok_destroyInternal:
  assumes "counters_ok (counters s)"
  shows "counters_ok (counters (destroyInternal L time st err waiting s))"
  using assms by (simp add: destroyInternal_def Let_def ok_saveDocument_call)

lemma sum_list_remove_nth:
  assumes "i < length (ks::int list)"
  shows "sum_list (take i ks) + sum_list (drop (Suc i) ks) = sum_list ks - ks ! i"
proof -
  have "sum_list ks = sum_list (take i ks @ ks ! i # drop (Suc i) ks)"
    using id_take_nth_drop[OF assms] by simp
  then show ?thesis by simp
qed

lemma ok_remove_nth:
  assumes "counters_ok (o1, u, ks)" "i < length ks"
  shows "counters_ok (o1 - ks ! i, u, take i ks @ drop (Suc i) ks)"
    and "counters_ok (o1, u, take i ks @ drop (Suc i) ks)"
proof -
  have pos: "0 < ks ! i" using assms by (simp add: counters_ok_def list_all_length)
  have all: "list_all (\<lambda>k. 0 < k) (take i ks @ drop (Suc i) ks)"
    using assms(1) by (auto simp: counters_ok_def list_all_iff dest: in_set_takeD in_set_dropD)
  show "counters_ok (o1 - ks ! i, u, take i ks @ drop (Suc i) ks)"
    using assms all by (simp add: counters_ok_def sum_list_remove_nth)
  show "counters_ok (o1, u, take i ks @ drop (Suc i) ks)"
    using assms all pos by (simp add: counters_ok_def sum_list_remove_nth)
qed

lemma ok_saveDocument_returned:
  assumes "counters_ok (counters s)" "i < length (pending_saves s)"
  shows "counters_ok (counters (saveDocument_returned L i s))"
proof -
  obtain k w where kw: "pending_saves s ! i = (k, w)" by (cases "pending_saves s ! i")
  have k: "map fst (pending_saves s) ! i = k" using assms(2) kw by simp
  have "counters_ok (savesOutstanding s - map fst (pending_saves s) ! i, savesUnclaimed s,
       take i (map fst (pending_saves s)) @ drop (Suc i) (map fst (pending_saves s)))"
    by (rule ok_remove_nth(1)) (use assms in \<open>simp_all add: counters_def\<close>)
  then show ?thesis
    by (simp add: saveDocument_returned_def kw Let_def counters_onSaved k take_map drop_map)
qed

lemma ok_saveDocument_threw:
  assumes "counters_ok (counters s)" "i < length (pending_saves s)"
  shows "counters_ok (counters (saveDocument_threw L time i s))"
proof -
  obtain k w where kw: "pending_saves s ! i = (k, w)" by (cases "pending_saves s ! i")
  have "counters_ok (savesOutstanding s, savesUnclaimed s,
       take i (map fst (pending_saves s)) @ drop (Suc i) (map fst (pending_saves s)))"
    by (rule ok_remove_nth(2)) (use assms in \<open>simp_all add: counters_def\<close>)
  then have "counters_ok (counters (s\<lparr>pending_saves := take i (pending_saves s) @ drop (Suc i) (pending_saves s)\<rparr>))"
    by (simp add: counters_def take_map drop_map)
  then show ?thesis
    by (simp add: saveDocument_threw_def kw Let_def ok_destroyInternal)
qed

lemma ok_track_presence:
  "counters_ok (counters s) \<Longrightarrow> counters_ok (counters (track_presence L time s))"
  by (simp add: track_presence_def ok_destroyInternal)

lemma ok_step:
  assumes "counters_ok (counters s)"
  shows "counters_ok (counters (step L time e s))"
proof (cases e)
  case SUBSCRIBED
  then show ?thesis using assms by (simp add: onSubscribed_def ok_track_presence)
next
  case (LoadDocumentReturned data)
  then show ?thesis using assms
    by (simp add: loadDocument_returned_def Let_def ok_track_presence ok_destroyInternal
          split: option.split prod.split)
next
  case LoadDocumentThrew
  then show ?thesis using assms by (simp add: loadDocument_threw_def ok_destroyInternal)
next
  case (TrackReturned ok)
  then show ?thesis using assms by (simp add: track_returned_def Let_def ok_destroyInternal)
next
  case (SaveDocumentReturned i)
  then show ?thesis using assms by (simp add: ok_saveDocument_returned)
next
  case (SaveDocumentThrew i)
  then show ?thesis using assms by (simp add: ok_saveDocument_threw)
next
  case (RemoveChannelReturned i ok)
  then show ?thesis using assms by (simp add: Let_def split: prod.split)
next
  case (DocumentUpdated d u)
  then show ?thesis using assms by (simp add: Let_def ok_onDocumentUpdate)
next
  case DebounceExpired
  then show ?thesis using assms by (simp add: ok_saveDocument_call split: option.split)
next
  case ThrottleExpired
  then show ?thesis using assms by (simp add: Let_def split: prod.split)
qed (use assms in \<open>simp_all add: ok_destroyInternal Let_def\<close>)

lemma ok_run:
  "counters_ok (counters s) \<Longrightarrow> counters_ok (counters (run L es s))"
  by (induction es arbitrary: s) (auto simp: ok_step)

lemma ok_new:
  "SupabaseProvider_new d c a t given = Inr s \<Longrightarrow> counters_ok (counters s)"
  by (auto simp: SupabaseProvider_new_def counters_def counters_ok_def split: sum.splits)

text \<open>
  C5: in every state a constructed provider reaches, by any events in any order and at
  any times, the unclaimed saves are not negative and not more than the outstanding
  ones, and \<^verbatim>\<open>saving\<close> is true exactly when outstanding saves remain.
\<close>

theorem save_counters_invariant:
  assumes "SupabaseProvider_new d c a t given = Inr s0"
  shows "0 \<le> savesUnclaimed (run L es s0)
    \<and> savesUnclaimed (run L es s0) \<le> savesOutstanding (run L es s0)
    \<and> (saving (run L es s0) \<longleftrightarrow> 0 < savesOutstanding (run L es s0))"
proof -
  have "counters_ok (counters (run L es s0))"
    using ok_new[OF assms] by (rule ok_run)
  then have u: "0 \<le> savesUnclaimed (run L es s0)"
    and p: "list_all (\<lambda>k. 0 < k) (map fst (pending_saves (run L es s0)))"
    and le: "savesUnclaimed (run L es s0) + sum_list (map fst (pending_saves (run L es s0)))
          \<le> savesOutstanding (run L es s0)"
    by (simp_all add: counters_ok_def counters_def)
  have "0 \<le> sum_list (map fst (pending_saves (run L es s0)))"
    by (rule sum_list_nonneg) (use p in \<open>auto simp: list_all_iff\<close>)
  then show ?thesis using u le by (simp add: saving_def)
qed

theorem save_counters_invariant_witness:
  "0 \<le> savesUnclaimed (run example_library
          [(2, DocumentUpdated [1] [1]), (3, DocumentUpdated [1, 2] [2]), (2503, DebounceExpired)]
          (example_provider None))
   \<and> savesUnclaimed (run example_library
          [(2, DocumentUpdated [1] [1]), (3, DocumentUpdated [1, 2] [2]), (2503, DebounceExpired)]
          (example_provider None))
      \<le> savesOutstanding (run example_library
          [(2, DocumentUpdated [1] [1]), (3, DocumentUpdated [1, 2] [2]), (2503, DebounceExpired)]
          (example_provider None))
   \<and> saving (run example_library
          [(2, DocumentUpdated [1] [1]), (3, DocumentUpdated [1, 2] [2]), (2503, DebounceExpired)]
          (example_provider None))
   \<and> savesOutstanding (run example_library
          [(2, DocumentUpdated [1] [1]), (3, DocumentUpdated [1, 2] [2])]
          (example_provider None)) = 2"
proof -
  let ?es = "[(2, DocumentUpdated [1] [1]), (3, DocumentUpdated [1, 2] [2]), (2503, DebounceExpired)]"
  have n: "SupabaseProvider_new [] 7 [7] () (example_given None None)
      = Inr (projr (example_new (example_given None None)))"
    by (simp add: example_new_def SupabaseProvider_new_def validateConfig_def example_given_def
        defaults_def DefaultResyncMs_def DefaultSaveMs_def)
  have r: "run example_library ([(0, SUBSCRIBED), (1, TrackReturned True)] @ es)
        (projr (example_new (example_given None None)))
      = run example_library es (example_provider None)" for es
    unfolding run_append example_provider_def ..
  have two: "savesOutstanding (run example_library
          [(2, DocumentUpdated [1] [1]), (3, DocumentUpdated [1, 2] [2])] (example_provider None)) = 2"
    by (simp add: example_connected onDocumentUpdate_def sendUpdate_def throttledSend_def
        commitUpdates_def requestSave_def saving_def emit_def Let_def)
  have pos: "0 < savesOutstanding (run example_library ?es (example_provider None))"
    by (simp add: example_connected onDocumentUpdate_def sendUpdate_def throttledSend_def
        commitUpdates_def requestSave_def saveDocument_call_def save_diff_def saving_def emit_def
        Let_def example_library_def)
  show ?thesis
    using save_counters_invariant[OF n, of example_library "[(0, SUBSCRIBED), (1, TrackReturned True)] @ ?es"]
      two pos
    unfolding r by simp
qed

section \<open>Receiving updates\<close>

lemma ByteSchema_iff:
  "ByteSchema x \<longleftrightarrow> (\<exists>n::int. x = JNum (of_int n) \<and> 0 \<le> n \<and> n \<le> 255)"
proof (cases x)
  case (JNum r)
  show ?thesis
  proof
    assume "ByteSchema x"
    then have "of_int \<lfloor>r\<rfloor> = r \<and> 0 \<le> r \<and> r \<le> 255"
      unfolding JNum ByteSchema.simps .
    then have e: "of_int \<lfloor>r\<rfloor> = r" and lo: "0 \<le> r" and hi: "r \<le> 255"
      by blast+
    have "0 \<le> \<lfloor>r\<rfloor>" using lo by simp
    moreover have "\<lfloor>r\<rfloor> \<le> 255" using hi by (simp add: floor_le_iff)
    moreover have "x = JNum (of_int \<lfloor>r\<rfloor>)"
      unfolding JNum e by (rule refl)
    ultimately show "\<exists>n::int. x = JNum (of_int n) \<and> 0 \<le> n \<and> n \<le> 255"
      by blast
  next
    assume "\<exists>n::int. x = JNum (of_int n) \<and> 0 \<le> n \<and> n \<le> 255"
    then show "ByteSchema x" by auto
  qed
qed simp_all

lemma ByteArraySchema_None: "ByteArraySchema v = None \<longleftrightarrow> \<not> byte_array_as_specified v"
proof (cases v)
  case (JArr xs)
  have "1 \<le> length xs \<longleftrightarrow> xs \<noteq> []" by (cases xs) simp_all
  then show ?thesis
    using JArr by (auto simp: byte_array_as_specified_def list_all_iff ByteSchema_iff)
qed (simp_all add: byte_array_as_specified_def)

lemma optional_field_None:
  "optional_field entries key = None \<longleftrightarrow>
     \<not> (map_of entries key = None \<or> map_of entries key = Some JUndefined \<or>
        (\<exists>v. map_of entries key = Some v \<and> byte_array_as_specified v))"
proof (cases "map_of entries key")
  case None
  then show ?thesis by (simp add: optional_field_def)
next
  case (Some v)
  have u: "\<not> byte_array_as_specified JUndefined"
    by (simp add: byte_array_as_specified_def)
  show ?thesis
  proof (cases "v = JUndefined")
    case True
    then show ?thesis using Some by (simp add: optional_field_def)
  next
    case False
    then have "optional_field entries key = None \<longleftrightarrow> ByteArraySchema v = None"
      using Some by (cases v) (simp_all add: optional_field_def split: option.split)
    then show ?thesis using Some False by (simp add: ByteArraySchema_None)
  qed
qed

lemma PayloadSchema_None: "PayloadSchema j = None \<longleftrightarrow> \<not> payload_as_specified j"
proof (cases j)
  case (JObj entries)
  have "PayloadSchema j = None \<longleftrightarrow>
      optional_field entries ''document'' = None \<or> optional_field entries ''awareness'' = None"
    using JObj by (simp split: option.split)
  then show ?thesis
    using JObj by (simp add: payload_as_specified_def optional_field_None)
qed (simp_all add: payload_as_specified_def)

lemma receive_awareness_keeps:
  "status (receive_awareness L time u s) = status s"
  "effects (receive_awareness L time u s) = effects s"
  by (simp_all add: receive_awareness_def Let_def split: option.split)

lemma receiveUpdate_keeps:
  "status (receiveUpdate L time j s) = status s"
  "effects (receiveUpdate L time j s) = effects s"
  by (simp_all add: receiveUpdate_def Let_def receive_awareness_keeps split: option.split)

text \<open>
  C6: a payload that does not match the schema as specified (an object whose
  \<^verbatim>\<open>document\<close> and \<^verbatim>\<open>awareness\<close> are each absent or a non-empty array of
  integers from 0 to 255) leaves the whole provider as it was, document and awareness
  included; and whatever the payload, also when applying it throws,
  \<^verbatim>\<open>receiveUpdate\<close> returns with the status unchanged and nothing emitted or sent.
\<close>

theorem receiveUpdate_tolerant:
  "(\<not> payload_as_specified j \<longrightarrow> receiveUpdate L time j s = s)
   \<and> status (receiveUpdate L time j s) = status s
   \<and> effects (receiveUpdate L time j s) = effects s"
proof -
  have "\<not> payload_as_specified j \<longrightarrow> receiveUpdate L time j s = s"
    by (simp add: receiveUpdate_def PayloadSchema_None[symmetric])
  then show ?thesis by (simp add: receiveUpdate_keeps)
qed

theorem receiveUpdate_tolerant_witness:
  "receiveUpdate example_library 2 (JObj [(''document'', JArr [JNum 25.5, JNum 3])]) (example_provider None)
     = example_provider None
   \<and> receiveUpdate example_library 2 (JArr [JNum 1]) (example_provider None) = example_provider None
   \<and> status (receiveUpdate example_library 2 (JObj [(''document'', JArr [JNum 255])])
        (example_provider None)) = Connected
   \<and> doc (receiveUpdate example_library 2 (JObj [(''document'', JArr [JNum 25, JNum 3])])
        (example_provider None)) = [25, 3]"
proof -
  have n1: "\<not> payload_as_specified (JObj [(''document'', JArr [JNum 25.5, JNum 3])])"
    using PayloadSchema_None[of "JObj [(''document'', JArr [JNum 25.5, JNum 3])]"]
    by (simp add: optional_field_def)
  have n2: "\<not> payload_as_specified (JArr [JNum 1])"
    using PayloadSchema_None[of "JArr [JNum 1]"] by simp
  have s: "status (example_provider None) = Connected"
    by (simp add: example_connected)
  have 4: "doc (receiveUpdate example_library 2 (JObj [(''document'', JArr [JNum 25, JNum 3])])
        (example_provider None)) = [25, 3]"
    by (simp add: example_connected receiveUpdate_def receive_awareness_def optional_field_def
        example_library_def Let_def)
  show ?thesis
    using receiveUpdate_tolerant[of "JObj [(''document'', JArr [JNum 25.5, JNum 3])]" example_library 2 "example_provider None"]
      receiveUpdate_tolerant[of "JArr [JNum 1]" example_library 2 "example_provider None"]
      receiveUpdate_tolerant[of "JObj [(''document'', JArr [JNum 255])]" example_library 2 "example_provider None"]
      n1 n2 s 4
    by simp
qed
section \<open>The provider: what enqueueing and sending updates leave alone\<close>

lemma observe_append [simp]:
  "sends_in (xs @ ys) = sends_in xs @ sends_in ys"
  "saves_in (xs @ ys) = saves_in xs @ saves_in ys"
  "statuses_in (xs @ ys) = statuses_in xs @ statuses_in ys"
  by (simp_all add: sends_in_def saves_in_def statuses_in_def)

lemma observe_Nil [simp]: "sends_in [] = []" "saves_in [] = []" "statuses_in [] = []"
  by (simp_all add: sends_in_def saves_in_def statuses_in_def)

lemma observe_Cons [simp]:
  "sends_in (e # es) = (case e of ChannelSend p \<Rightarrow> [p] | _ \<Rightarrow> []) @ sends_in es"
  "saves_in (e # es) = (case e of CallSaveDocument b \<Rightarrow> [b] | _ \<Rightarrow> []) @ saves_in es"
  "statuses_in (e # es) = (case e of EmitStatus st err \<Rightarrow> [(st, err)] | _ \<Rightarrow> []) @ statuses_in es"
  by (simp_all add: sends_in_def saves_in_def statuses_in_def)

lemma core_update [simp]:
  "core (s\<lparr>documentUpdates := x1\<rparr>) = core s"
  "core (s\<lparr>awarenessUpdates := x2\<rparr>) = core s"
  "core (s\<lparr>throttledSend_state := x3\<rparr>) = core s"
  "core (s\<lparr>awareness := x4\<rparr>) = core s"
  "core (s\<lparr>alone := x5\<rparr>) = core s"
  "core (emit (ChannelSend p) s) = core s"
  by (simp_all add: core_def emit_def)

lemma core_commitUpdates [simp]: "core (commitUpdates L s) = core s"
  by (simp add: commitUpdates_def Let_def)

lemma core_throttledSend [simp]: "core (throttledSend L time s) = core s"
  by (simp add: throttledSend_def Let_def split: prod.split)

lemma core_sendUpdate [simp]: "core (sendUpdate L time u s) = core s"
  by (simp add: sendUpdate_def Let_def split: option.split)

lemma core_onAwarenessUpdate [simp]: "core (onAwarenessUpdate L time x y z orig s) = core s"
  by (simp add: onAwarenessUpdate_def Let_def)

lemma core_onUnload [simp]: "core (onUnload L time s) = core s"
  by (simp add: onUnload_def Let_def split: prod.split)

lemma core_fields:
  assumes "core s' = core s"
  shows "config s' = config s" "doc s' = doc s" "clientID s' = clientID s" "status s' = status s"
    "realtime_channel s' = realtime_channel s" "resync_timer s' = resync_timer s"
    "previous s' = previous s" "savesOutstanding s' = savesOutstanding s"
    "savesUnclaimed s' = savesUnclaimed s" "debouncedSave_due s' = debouncedSave_due s"
    "unload_handler s' = unload_handler s" "update_handlers s' = update_handlers s"
    "pending_loads s' = pending_loads s" "pending_tracks s' = pending_tracks s"
    "pending_saves s' = pending_saves s" "pending_removes s' = pending_removes s"
    "save_calls s' = save_calls s" "statuses_emitted s' = statuses_emitted s"
  using assms by (simp_all add: core_def)

lemmas sendUpdate_fields [simp] = core_fields[OF core_sendUpdate]
lemmas commitUpdates_fields [simp] = core_fields[OF core_commitUpdates]
lemmas onUnload_fields [simp] = core_fields[OF core_onUnload]

subsection \<open>One local edit\<close>

lemma edit_step:
  assumes "status s = Connected" "save (config s)" "saveDocument_hook (config s)"
    "update_handlers s"
  shows "core (step L t (DocumentUpdated d u) s) =
    core (s\<lparr>doc := d, savesOutstanding := savesOutstanding s + 1,
            savesUnclaimed := savesUnclaimed s + 1,
            debouncedSave_due := Some (t + saveInterval (config s))\<rparr>)"
  using assms
  by (simp add: onDocumentUpdate_def requestSave_def Let_def core_def emit_def)



subsection \<open>Bursts of edits and the debounce\<close>



lemma debounce_fires:
  assumes "status s = Connected" "save (config s)" "saveDocument_hook (config s)"
    "0 < savesUnclaimed s" "debouncedSave_due s = Some due" "due \<le> t"
    "save_diff L (doc s) (previous s) \<noteq> [0, 0]"
  shows "step L t DebounceExpired s =
    emit (CallSaveDocument (save_diff L (doc s) (previous s)))
      (s\<lparr>debouncedSave_due := None, savesUnclaimed := 0,
         pending_saves := pending_saves s @ [(savesUnclaimed s, [])]\<rparr>)"
  using assms by (simp add: saveDocument_call_def Let_def)

section \<open>Save coalescing\<close>

lemma requests_update [simp]:
  "requests (s\<lparr>doc := x1\<rparr>) = requests s"
  "requests (s\<lparr>clientID := x2\<rparr>) = requests s"
  "requests (s\<lparr>awareness := x3\<rparr>) = requests s"
  "requests (s\<lparr>status := x4\<rparr>) = requests s"
  "requests (s\<lparr>realtime_channel := x5\<rparr>) = requests s"
  "requests (s\<lparr>resync_timer := x6\<rparr>) = requests s"
  "requests (s\<lparr>previous := x7\<rparr>) = requests s"
  "requests (s\<lparr>alone := x8\<rparr>) = requests s"
  "requests (s\<lparr>savesOutstanding := x9\<rparr>) = requests s"
  "requests (s\<lparr>documentUpdates := y1\<rparr>) = requests s"
  "requests (s\<lparr>awarenessUpdates := y2\<rparr>) = requests s"
  "requests (s\<lparr>throttledSend_state := y3\<rparr>) = requests s"
  "requests (s\<lparr>unload_handler := y4\<rparr>) = requests s"
  "requests (s\<lparr>update_handlers := y5\<rparr>) = requests s"
  "requests (s\<lparr>pending_loads := y6\<rparr>) = requests s"
  "requests (s\<lparr>pending_tracks := y7\<rparr>) = requests s"
  "requests (s\<lparr>pending_saves := y8\<rparr>) = requests s"
  "requests (s\<lparr>pending_removes := y9\<rparr>) = requests s"
  by (simp_all add: requests_def)

lemma requests_emit [simp]:
  "requests (emit (EmitStatus st err) s) = requests s"
  "requests (emit (EmitSaving b) s) = requests s"
  "requests (emit ChannelSubscribe s) = requests s"
  "requests (emit ChannelTrack s) = requests s"
  "requests (emit (ChannelSend p) s) = requests s"
  "requests (emit RemoveChannel s) = requests s"
  "requests (emit CallLoadDocument s) = requests s"
  by (simp_all add: requests_def emit_def)

lemma requests_core: "core s' = core s \<Longrightarrow> requests s' = requests s"
  by (simp add: requests_def core_def)

lemma requests_sending [simp]:
  "requests (commitUpdates L s) = requests s"
  "requests (sendUpdate L time u s) = requests s"
  "requests (onAwarenessUpdate L time x y z orig s) = requests s"
  "requests (onUnload L time s) = requests s"
  by (rule requests_core, simp)+

lemma requests_onSaved [simp]: "requests (onSaved k s) = requests s"
  by (simp add: onSaved_def Let_def)

lemma requests_destroy_finish [simp]: "requests (destroy_finish L f s) = requests s"
  by (simp add: destroy_finish_def Let_def)

lemma requests_resume [simp]: "requests (resume L waiting s) = requests s"
  by (induction waiting arbitrary: s) (simp_all add: Let_def)

lemma requests_removeChannel_returned [simp]:
  "requests (removeChannel_returned L f waiting ok s) = requests s"
  by (simp add: removeChannel_returned_def Let_def)

lemma requests_receive_awareness [simp]: "requests (receive_awareness L time j s) = requests s"
  by (simp add: receive_awareness_def Let_def split: option.split)

lemma requests_receiveUpdate [simp]: "requests (receiveUpdate L time j s) = requests s"
  by (simp add: receiveUpdate_def Let_def split: option.split)

lemma requests_presence_sync [simp]: "requests (presence_sync L time n s) = requests s"
  by (simp add: presence_sync_def Let_def)

lemma requests_saveDocument_returned [simp]:
  "requests (saveDocument_returned L i s) = requests s"
  by (simp add: saveDocument_returned_def Let_def split: prod.split)

lemma requests_fields:
  assumes "requests s' = requests s"
  shows "config s' = config s" "save_calls s' = save_calls s"
    "savesUnclaimed s' = savesUnclaimed s" "debouncedSave_due s' = debouncedSave_due s"
  using assms by (simp_all add: requests_def)












section \<open>Teardown\<close>

lemma destroy_with_unclaimed:
  assumes "status s = Connected" "save (config s)" "saveDocument_hook (config s)"
    "0 < savesUnclaimed s"
  shows "core (step L t Destroy s) =
    core (emit (CallSaveDocument (save_diff L (doc s) (previous s)))
      (s\<lparr>status := Disconnected, resync_timer := False, unload_handler := False,
         savesUnclaimed := 0,
         pending_saves := pending_saves s @ [(savesUnclaimed s, [(Disconnected, None)])]\<rparr>))"
  using assms
  by (simp add: destroyInternal_def saveDocument_call_def Let_def core_def emit_def)

lemma save_settled_in_destroy:
  assumes "pending_saves s = ps @ [(k, [f])]" "status s = Disconnected" "realtime_channel s"
  shows "core (step L t (SaveDocumentReturned (length ps)) s) =
      core (emit RemoveChannel
        (s\<lparr>pending_saves := ps, previous := Some (encodeStateVector L (doc s)),
           savesOutstanding := savesOutstanding s - k, update_handlers := False,
           pending_removes := pending_removes s @ [(f, [])]\<rparr>))"
    and "core (step L t (SaveDocumentThrew (length ps)) s) =
      core (emit RemoveChannel
        (s\<lparr>pending_saves := ps, update_handlers := False,
           pending_removes := pending_removes s @ [(f, [])]\<rparr>))"
  using assms
  by (simp_all add: saveDocument_returned_def saveDocument_threw_def destroyInternal_def
      onSaved_def Let_def core_def emit_def)

lemma remove_settled:
  assumes "pending_removes s = rs @ [(f, [])]"
  shows "core (step L t (RemoveChannelReturned (length rs) ok) s) =
      core (emit (EmitStatus (if ok then fst f else DisconnectedError)
                    (if ok then snd f else Some FailedToRemoveChannel))
        (s\<lparr>pending_removes := rs, realtime_channel := False,
           status := (if ok then fst f else DisconnectedError)\<rparr>))"
  using assms
  by (simp add: removeChannel_returned_def destroy_finish_def Let_def core_def emit_def)

lemma debounce_when_not_connected:
  assumes "status s \<noteq> Connected"
  shows "save_calls (step L t DebounceExpired s) = save_calls s"
  using assms by (simp add: saveDocument_call_def split: option.split)

text \<open>
  C7, as stated, fails: when \<^verbatim>\<open>removeChannel\<close> does not return \<^verbatim>\<open>"ok"\<close>,
  a \<^verbatim>\<open>destroy()\<close> right after a local edit still makes its one save call, but the
  final status emitted is \<open>DisconnectedError\<close>.
\<close>

theorem teardown_after_edit_counterexample:
  "status (example_provider None) = Connected
   \<and> save_calls (run example_library
        [(2, DocumentUpdated [1] [1]), (3, Destroy), (4, SaveDocumentReturned 0),
         (5, RemoveChannelReturned 0 False)] (example_provider None)) = [[2, 1]]
   \<and> last (statuses_emitted (run example_library
        [(2, DocumentUpdated [1] [1]), (3, Destroy), (4, SaveDocumentReturned 0),
         (5, RemoveChannelReturned 0 False)] (example_provider None)))
      = (DisconnectedError, Some FailedToRemoveChannel)"
  by (simp add: example_connected onDocumentUpdate_def sendUpdate_def throttledSend_def commitUpdates_def requestSave_def
      saveDocument_call_def save_diff_def destroyInternal_def onUnload_def onAwarenessUpdate_def
      saveDocument_returned_def saveDocument_threw_def removeChannel_returned_def
      destroy_finish_def onSaved_def presence_sync_def resync_request_def saving_def emit_def
      uniq_def Let_def example_library_def)

text \<open>
  C7, amended: take a provider in a state it has reached since its construction,
  connected, with its channel, saving enabled, a save callback configured and its update
  callbacks registered, whatever calls are in flight. When \<^verbatim>\<open>destroy()\<close> is called
  right after a local edit, the save callback is called exactly once, with the bytes of
  the diff between the document after the edit and the state vector recorded last (of
  the whole document when none is recorded); \<^verbatim>\<open>destroy()\<close> waits for that call
  before it goes on: no status is emitted and the channel is not removed until the call
  has returned or thrown; then the channel is removed, and the final status emitted is
  \<open>Disconnected\<close> when the removal returns \<^verbatim>\<open>"ok"\<close> and
  \<open>DisconnectedError\<close> when it does not. The debounce timer that expires later
  calls the save callback no more.
\<close>

theorem teardown_after_edit:
  assumes "SupabaseProvider_new d0 client a0 t0 given = Inr s0"
    and "s = run L history s0"
    and "status s = Connected" and "save (config s)" and "saveDocument_hook (config s)"
    and "update_handlers s" and "realtime_channel s"
    and "s2 = run L [(t1, DocumentUpdated d u), (t2, Destroy)] s"
    and "settled = SaveDocumentReturned (length (pending_saves s))
       \<or> settled = SaveDocumentThrew (length (pending_saves s))"
    and "s3 = step L t3 settled s2"
    and "s4 = step L t4 (RemoveChannelReturned (length (pending_removes s)) ok) s3"
  shows "save_calls s2 = save_calls s @
          [Array_from (case previous s of
             Some v \<Rightarrow> diffUpdateV2 L (encodeStateAsUpdateV2 L d) v
           | None \<Rightarrow> encodeStateAsUpdateV2 L d)]
    \<and> pending_saves s2 = pending_saves s @ [(savesUnclaimed s + 1, [(Disconnected, None)])]
    \<and> statuses_emitted s2 = statuses_emitted s
    \<and> pending_removes s2 = pending_removes s
    \<and> save_calls s3 = save_calls s2 \<and> statuses_emitted s3 = statuses_emitted s
    \<and> pending_removes s3 = pending_removes s @ [((Disconnected, None), [])]
    \<and> save_calls s4 = save_calls s2
    \<and> statuses_emitted s4 = statuses_emitted s @
         [if ok then (Disconnected, None) else (DisconnectedError, Some FailedToRemoveChannel)]
    \<and> status s4 = (if ok then Disconnected else DisconnectedError)
    \<and> save_calls (step L t5 DebounceExpired s4) = save_calls s2"
proof -
  have "counters_ok (counters s)"
    unfolding assms(2) using ok_new[OF assms(1)] by (rule ok_run)
  then have u: "0 \<le> savesUnclaimed s"
    by (simp add: counters_ok_def counters_def)
  let ?s1 = "step L t1 (DocumentUpdated d u) s"
  let ?diff = "Array_from (case previous s of
             Some v \<Rightarrow> diffUpdateV2 L (encodeStateAsUpdateV2 L d) v
           | None \<Rightarrow> encodeStateAsUpdateV2 L d)"
  have sd: "save_diff L d (previous s) = ?diff"
    by (simp add: save_diff_def Let_def)
  have c1: "core ?s1 = core (s\<lparr>doc := d, savesOutstanding := savesOutstanding s + 1,
            savesUnclaimed := savesUnclaimed s + 1,
            debouncedSave_due := Some (t1 + saveInterval (config s))\<rparr>)"
    using assms(3-6) by (rule edit_step)
  note f1 = core_fields[OF c1]
  have s2: "s2 = step L t2 Destroy ?s1" using assms(8) by simp
  have c2: "core s2 =
    core (emit (CallSaveDocument (save_diff L (doc ?s1) (previous ?s1)))
      (?s1\<lparr>status := Disconnected, resync_timer := False, unload_handler := False,
         savesUnclaimed := 0,
         pending_saves := pending_saves ?s1 @ [(savesUnclaimed ?s1, [(Disconnected, None)])]\<rparr>))"
    unfolding s2 using f1 assms(3-5) u by (intro destroy_with_unclaimed) simp_all
  note f2 = core_fields[OF c2]
  have a2: "save_calls s2 = save_calls s @ [?diff]"
    "pending_saves s2 = pending_saves s @ [(savesUnclaimed s + 1, [(Disconnected, None)])]"
    "statuses_emitted s2 = statuses_emitted s" "status s2 = Disconnected"
    "realtime_channel s2" "pending_removes s2 = pending_removes s"
    using f2 f1 assms(7) by (simp_all add: emit_def sd del: step.simps)
  have a3: "save_calls s3 = save_calls s2 \<and> statuses_emitted s3 = statuses_emitted s
      \<and> pending_removes s3 = pending_removes s @ [((Disconnected, None), [])]
      \<and> status s3 = Disconnected"
  proof -
    note st = save_settled_in_destroy[OF a2(2) a2(4) a2(5), of L t3]
    from assms(9) show ?thesis
    proof
      assume "settled = SaveDocumentReturned (length (pending_saves s))"
      then have "core s3 = core (emit RemoveChannel
        (s2\<lparr>pending_saves := pending_saves s,
           previous := Some (encodeStateVector L (doc s2)),
           savesOutstanding := savesOutstanding s2 - (savesUnclaimed s + 1),
           update_handlers := False,
           pending_removes := pending_removes s2 @ [((Disconnected, None), [])]\<rparr>))"
        using st(1) assms(10) by simp
      from core_fields[OF this] show ?thesis using a2 by (simp add: emit_def)
    next
      assume "settled = SaveDocumentThrew (length (pending_saves s))"
      then have "core s3 = core (emit RemoveChannel
        (s2\<lparr>pending_saves := pending_saves s, update_handlers := False,
           pending_removes := pending_removes s2 @ [((Disconnected, None), [])]\<rparr>))"
        using st(2) assms(10) by simp
      from core_fields[OF this] show ?thesis using a2 by (simp add: emit_def)
    qed
  qed
  have c4: "core s4 =
      core (emit (EmitStatus (if ok then Disconnected else DisconnectedError)
                    (if ok then None else Some FailedToRemoveChannel))
        (s3\<lparr>pending_removes := pending_removes s, realtime_channel := False,
           status := (if ok then Disconnected else DisconnectedError)\<rparr>))"
    using remove_settled[of s3 "pending_removes s" "(Disconnected, None)" L t4 ok] a3 assms(11)
    by simp
  note f4 = core_fields[OF c4]
  have a4: "save_calls s4 = save_calls s2"
    "statuses_emitted s4 = statuses_emitted s @
         [if ok then (Disconnected, None) else (DisconnectedError, Some FailedToRemoveChannel)]"
    "status s4 = (if ok then Disconnected else DisconnectedError)"
    using f4 a3 by (simp_all add: emit_def)
  have "status s4 \<noteq> Connected" using a4(3) by simp
  then have a5: "save_calls (step L t5 DebounceExpired s4) = save_calls s2"
    using debounce_when_not_connected[of s4 L t5] a4(1) by simp
  show ?thesis using a2 a3 a4 a5 by simp
qed

theorem teardown_after_edit_witness:
  "save_calls (run example_library
        [(2, DocumentUpdated [1] [1]), (3, Destroy)] (example_provider None)) = [[2, 1]]
   \<and> statuses_emitted (run example_library
        [(2, DocumentUpdated [1] [1]), (3, Destroy), (4, SaveDocumentReturned 0),
         (5, RemoveChannelReturned 0 True)] (example_provider None))
      = [(Connecting, None), (Connected, None), (Disconnected, None)]
   \<and> save_calls (run example_library
        [(2, DocumentUpdated [1] [1]), (3, Destroy), (4, SaveDocumentThrew 0),
         (5, RemoveChannelReturned 0 True), (2502, DebounceExpired)] (example_provider None))
      = [[2, 1]]"
proof -
  let ?s = "example_provider None"
  let ?s2 = "run example_library [(2, DocumentUpdated [1] [1]), (3, Destroy)] ?s"
  have n: "SupabaseProvider_new [] 7 [7] () (example_given None None)
      = Inr (projr (example_new (example_given None None)))"
    by (simp add: example_new_def SupabaseProvider_new_def validateConfig_def example_given_def
        defaults_def DefaultResyncMs_def DefaultSaveMs_def)
  have r: "?s = run example_library [(0, SUBSCRIBED), (1, TrackReturned True)]
        (projr (example_new (example_given None None)))"
    by (simp only: example_provider_def)
  have h: "status ?s = Connected" "save (config ?s)" "saveDocument_hook (config ?s)"
    "update_handlers ?s" "realtime_channel ?s" "pending_saves ?s = []"
    "pending_removes ?s = []" "save_calls ?s = []" "previous ?s = None"
    "statuses_emitted ?s = [(Connecting, None), (Connected, None)]"
    by (simp_all add: example_connected)
  have z: "length (pending_saves ?s) = 0" "length (pending_removes ?s) = 0"
    by (simp_all add: h)
  have e: "Array_from (encodeStateAsUpdateV2 example_library [1]) = [2, 1]"
    by (simp add: example_library_def)
  note th = teardown_after_edit[where ?t1.0 = 2 and d = "[1]" and u = "[1]" and ?t2.0 = 3
      and ?t4.0 = 5 and ok = True and ?t5.0 = 2502 and ?t3.0 = 4,
      OF n r h(1-5) refl _ refl refl, unfolded z]
  have "save_calls ?s2 = [[2, 1]]"
    using th[where settled = "SaveDocumentReturned 0"] by (simp add: h e del: step.simps)
  moreover have "statuses_emitted
      (step example_library 5 (RemoveChannelReturned 0 True)
        (step example_library 4 (SaveDocumentReturned 0) ?s2))
      = [(Connecting, None), (Connected, None), (Disconnected, None)]"
    using th[where settled = "SaveDocumentReturned 0"] by (simp add: h e del: step.simps)
  moreover have "save_calls (step example_library 2502 DebounceExpired
      (step example_library 5 (RemoveChannelReturned 0 True)
        (step example_library 4 (SaveDocumentThrew 0) ?s2))) = [[2, 1]]"
    using th[where settled = "SaveDocumentThrew 0"] by (simp add: h e del: step.simps)
  ultimately show ?thesis by (simp del: step.simps)
qed

section \<open>Presence\<close>

subsection \<open>Alone\<close>

lemma outgoing_update [simp]:
  "outgoing (s\<lparr>config := x1\<rparr>) = outgoing s"
  "outgoing (s\<lparr>doc := x2\<rparr>) = outgoing s"
  "outgoing (s\<lparr>clientID := x3\<rparr>) = outgoing s"
  "outgoing (s\<lparr>awareness := x4\<rparr>) = outgoing s"
  "outgoing (s\<lparr>status := x5\<rparr>) = outgoing s"
  "outgoing (s\<lparr>realtime_channel := x6\<rparr>) = outgoing s"
  "outgoing (s\<lparr>resync_timer := x7\<rparr>) = outgoing s"
  "outgoing (s\<lparr>previous := x8\<rparr>) = outgoing s"
  "outgoing (s\<lparr>savesOutstanding := x9\<rparr>) = outgoing s"
  "outgoing (s\<lparr>savesUnclaimed := y1\<rparr>) = outgoing s"
  "outgoing (s\<lparr>debouncedSave_due := y2\<rparr>) = outgoing s"
  "outgoing (s\<lparr>documentUpdates := y3\<rparr>) = outgoing s"
  "outgoing (s\<lparr>awarenessUpdates := y4\<rparr>) = outgoing s"
  "outgoing (s\<lparr>throttledSend_state := y5\<rparr>) = outgoing s"
  "outgoing (s\<lparr>unload_handler := y6\<rparr>) = outgoing s"
  "outgoing (s\<lparr>update_handlers := y7\<rparr>) = outgoing s"
  "outgoing (s\<lparr>pending_loads := y8\<rparr>) = outgoing s"
  "outgoing (s\<lparr>pending_tracks := y9\<rparr>) = outgoing s"
  "outgoing (s\<lparr>pending_saves := z1\<rparr>) = outgoing s"
  "outgoing (s\<lparr>pending_removes := z2\<rparr>) = outgoing s"
  by (simp_all add: outgoing_def)

lemma outgoing_emit [simp]:
  "outgoing (emit (EmitStatus st err) s) = outgoing s"
  "outgoing (emit (EmitSaving b) s) = outgoing s"
  "outgoing (emit ChannelSubscribe s) = outgoing s"
  "outgoing (emit ChannelTrack s) = outgoing s"
  "outgoing (emit RemoveChannel s) = outgoing s"
  "outgoing (emit CallLoadDocument s) = outgoing s"
  "outgoing (emit (CallSaveDocument x) s) = outgoing s"
  by (simp_all add: outgoing_def emit_def)

lemma commitUpdates_alone: "alone s \<Longrightarrow> commitUpdates L s = s"
  by (simp add: commitUpdates_def)

lemma alone_outgoing: "fst (outgoing s) = alone s"
  by (simp add: outgoing_def)

lemma quiet_commitUpdates [simp]: "fst (outgoing s) \<Longrightarrow> outgoing (commitUpdates L s) = outgoing s"
  by (simp add: commitUpdates_alone alone_outgoing)

lemma quiet_throttledSend [simp]:
  "fst (outgoing s) \<Longrightarrow> outgoing (throttledSend L time s) = outgoing s"
  by (simp add: throttledSend_def Let_def split: prod.split)

lemma quiet_sendUpdate [simp]:
  "fst (outgoing s) \<Longrightarrow> outgoing (sendUpdate L time u s) = outgoing s"
  by (simp add: sendUpdate_def Let_def split: option.split)

lemma quiet_onAwarenessUpdate [simp]:
  "fst (outgoing s) \<Longrightarrow> outgoing (onAwarenessUpdate L time x y z orig s) = outgoing s"
  by (simp add: onAwarenessUpdate_def Let_def)

lemma quiet_onUnload [simp]: "fst (outgoing s) \<Longrightarrow> outgoing (onUnload L time s) = outgoing s"
  by (simp add: onUnload_def Let_def split: prod.split)

lemma quiet_requestSave [simp]: "outgoing (requestSave time s) = outgoing s"
  by (simp add: requestSave_def Let_def)

lemma quiet_onDocumentUpdate [simp]:
  "fst (outgoing s) \<Longrightarrow> outgoing (onDocumentUpdate L time u orig s) = outgoing s"
  by (simp add: onDocumentUpdate_def)

lemma quiet_onSaved [simp]: "outgoing (onSaved k s) = outgoing s"
  by (simp add: onSaved_def Let_def)

lemma quiet_destroy_finish [simp]: "outgoing (destroy_finish L f s) = outgoing s"
  by (simp add: destroy_finish_def Let_def)

lemma quiet_resume [simp]: "outgoing (resume L waiting s) = outgoing s"
  by (induction waiting arbitrary: s) (simp_all add: Let_def)

lemma quiet_removeChannel_returned [simp]:
  "outgoing (removeChannel_returned L f waiting ok s) = outgoing s"
  by (simp add: removeChannel_returned_def Let_def)

lemma quiet_saveDocument_call [simp]:
  "outgoing (saveDocument_call L rc waiting s) = outgoing s"
  by (simp add: saveDocument_call_def Let_def)

lemma quiet_destroyInternal [simp]:
  "fst (outgoing s) \<Longrightarrow> outgoing (destroyInternal L time st err waiting s) = outgoing s"
  by (simp add: destroyInternal_def Let_def)

lemma quiet_saveDocument_returned [simp]:
  "outgoing (saveDocument_returned L i s) = outgoing s"
  by (simp add: saveDocument_returned_def Let_def split: prod.split)

lemma quiet_saveDocument_threw [simp]:
  "fst (outgoing s) \<Longrightarrow> outgoing (saveDocument_threw L time i s) = outgoing s"
  by (simp add: saveDocument_threw_def Let_def split: prod.split)

lemma quiet_track_presence [simp]:
  "fst (outgoing s) \<Longrightarrow> outgoing (track_presence L time s) = outgoing s"
  by (simp add: track_presence_def)

lemma quiet_receive_awareness [simp]: "outgoing (receive_awareness L time u s) = outgoing s"
  by (simp add: receive_awareness_def Let_def split: option.split)

lemma quiet_receiveUpdate [simp]: "outgoing (receiveUpdate L time j s) = outgoing s"
  by (simp add: receiveUpdate_def Let_def split: option.split)

lemma quiet_step:
  assumes "fst (outgoing s)" and "\<And>n. e = PresenceSync n \<Longrightarrow> n \<le> 1"
  shows "outgoing (step L time e s) = outgoing s"
proof (cases e)
  case (PresenceSync n)
  then have "n \<le> 1" using assms(2) by simp
  then show ?thesis using PresenceSync assms(1)
    by (simp add: presence_sync_def Let_def outgoing_def)
next
  case SUBSCRIBED
  then show ?thesis using assms(1) by (simp add: onSubscribed_def)
next
  case (LoadDocumentReturned data)
  then show ?thesis using assms(1)
    by (simp add: loadDocument_returned_def Let_def split: option.split prod.split)
next
  case LoadDocumentThrew
  then show ?thesis using assms(1) by (simp add: loadDocument_threw_def)
next
  case (TrackReturned ok)
  then show ?thesis using assms(1) by (simp add: track_returned_def Let_def)
next
  case (RemoveChannelReturned i ok)
  then show ?thesis using assms(1) by (simp add: Let_def split: prod.split)
next
  case DebounceExpired
  then show ?thesis using assms(1) by (simp split: option.split)
next
  case ThrottleExpired
  then show ?thesis using assms(1) by (simp add: Let_def split: prod.split)
qed (use assms(1) in \<open>simp_all add: Let_def\<close>)


subsection \<open>No longer alone\<close>

lemma commitUpdates_sends:
  assumes "\<not> alone q" "status q = Connected" "realtime_channel q" "documentUpdates q \<noteq> []"
  shows "commitUpdates L q =
    emit (ChannelSend
            \<lparr>payload_document = Some (mergeUpdates L (documentUpdates q)),
             payload_awareness =
               (if awarenessUpdates q = [] then None
                else Some (encodeAwarenessUpdate L (awareness q) (uniq (awarenessUpdates q))))\<rparr>)
      (q\<lparr>documentUpdates := [], awarenessUpdates := []\<rparr>)"
  using assms by (simp add: commitUpdates_def Let_def)

lemma commitUpdates_empty:
  assumes "documentUpdates q = []" "awarenessUpdates q = []"
  shows "commitUpdates L q = q"
  using assms by (simp add: commitUpdates_def)

lemma flush_once:
  assumes "\<not> alone q" "status q = Connected" "realtime_channel q" "documentUpdates q \<noteq> []"
  shows "effects (commitUpdates L (throttledSend L time q)) = effects q @
      [ChannelSend
         \<lparr>payload_document = Some (mergeUpdates L (documentUpdates q)),
          payload_awareness =
            (if awarenessUpdates q = [] then None
             else Some (encodeAwarenessUpdate L (awareness q) (uniq (awarenessUpdates q))))\<rparr>]"
    and "documentUpdates (commitUpdates L (throttledSend L time q)) = []"
    and "awarenessUpdates (commitUpdates L (throttledSend L time q)) = []"
    and "\<not> alone (commitUpdates L (throttledSend L time q))"
proof -
  let ?sent = "emit (ChannelSend
            \<lparr>payload_document = Some (mergeUpdates L (documentUpdates q)),
             payload_awareness =
               (if awarenessUpdates q = [] then None
                else Some (encodeAwarenessUpdate L (awareness q) (uniq (awarenessUpdates q))))\<rparr>)"
  have "\<exists>t. commitUpdates L (throttledSend L time q) =
      ?sent (q\<lparr>documentUpdates := [], awarenessUpdates := [], throttledSend_state := t\<rparr>)"
  proof (cases "throttleInterval (config q) = 0")
    case True
    have "commitUpdates L (throttledSend L time q) =
        commitUpdates L (?sent (q\<lparr>documentUpdates := [], awarenessUpdates := []\<rparr>))"
      using True commitUpdates_sends[OF assms, of L] by (simp add: throttledSend_def)
    also have "\<dots> = ?sent (q\<lparr>documentUpdates := [], awarenessUpdates := []\<rparr>)"
      by (rule commitUpdates_empty) (simp_all add: emit_def)
    finally have "commitUpdates L (throttledSend L time q) =
        ?sent (q\<lparr>documentUpdates := [], awarenessUpdates := [],
                 throttledSend_state := throttledSend_state q\<rparr>)"
      by simp
    then show ?thesis by blast
  next
    case False
    obtain t invoke where tc: "throttle_call L (throttledSend_state q) time = (t, invoke)"
      by (cases "throttle_call L (throttledSend_state q) time")
    let ?q1 = "q\<lparr>throttledSend_state := t\<rparr>"
    have q1: "commitUpdates L ?q1 =
        ?sent (q\<lparr>documentUpdates := [], awarenessUpdates := [], throttledSend_state := t\<rparr>)"
      using commitUpdates_sends[of ?q1 L] assms by (simp add: emit_def)
    show ?thesis
    proof (cases invoke)
      case True
      then have "commitUpdates L (throttledSend L time q) = commitUpdates L (commitUpdates L ?q1)"
        using False tc by (simp add: throttledSend_def)
      also have "\<dots> = commitUpdates L ?q1"
        unfolding q1 by (rule commitUpdates_empty) (simp_all add: emit_def)
      finally show ?thesis using q1 by auto
    next
      case False
      then have "commitUpdates L (throttledSend L time q) = commitUpdates L ?q1"
        using \<open>throttleInterval (config q) \<noteq> 0\<close> tc by (simp add: throttledSend_def)
      then show ?thesis using q1 by auto
    qed
  qed
  then obtain t where e: "commitUpdates L (throttledSend L time q) =
      ?sent (q\<lparr>documentUpdates := [], awarenessUpdates := [], throttledSend_state := t\<rparr>)"
    by blast
  show "effects (commitUpdates L (throttledSend L time q)) = effects q @
      [ChannelSend
         \<lparr>payload_document = Some (mergeUpdates L (documentUpdates q)),
          payload_awareness =
            (if awarenessUpdates q = [] then None
             else Some (encodeAwarenessUpdate L (awareness q) (uniq (awarenessUpdates q))))\<rparr>]"
    unfolding e by (simp add: emit_def)
  show "documentUpdates (commitUpdates L (throttledSend L time q)) = []"
    unfolding e by (simp add: emit_def)
  show "awarenessUpdates (commitUpdates L (throttledSend L time q)) = []"
    unfolding e by (simp add: emit_def)
  show "\<not> alone (commitUpdates L (throttledSend L time q))"
    unfolding e using assms(1) by (simp add: emit_def)
qed

lemma presence_sync_enqueues:
  assumes "1 < n" "resync (config s)"
  shows "step L time (PresenceSync n) s =
    commitUpdates L (throttledSend L time
      (s\<lparr>alone := False,
         documentUpdates := documentUpdates s @ [encodeStateAsUpdate L (doc s)],
         awarenessUpdates :=
           awarenessUpdates s @ (if rw (config s) = ReadOnly then [] else [clientID s])\<rparr>))"
  using assms by (simp add: presence_sync_def sendUpdate_def resync_request_def Let_def)

lemma presence_sync_resync:
  assumes "1 < n" "status s = Connected" "realtime_channel s" "resync (config s)"
  shows "effects (step L time (PresenceSync n) s) = effects s @
      [ChannelSend
         \<lparr>payload_document =
            Some (mergeUpdates L (documentUpdates s @ [encodeStateAsUpdate L (doc s)])),
          payload_awareness =
            (if rw (config s) = ReadOnly \<and> awarenessUpdates s = [] then None
             else Some (encodeAwarenessUpdate L (awareness s)
                    (uniq (awarenessUpdates s @
                       (if rw (config s) = ReadOnly then [] else [clientID s])))))\<rparr>]"
    and "documentUpdates (step L time (PresenceSync n) s) = []"
    and "awarenessUpdates (step L time (PresenceSync n) s) = []"
    and "\<not> alone (step L time (PresenceSync n) s)"
proof -
  let ?q = "s\<lparr>alone := False,
         documentUpdates := documentUpdates s @ [encodeStateAsUpdate L (doc s)],
         awarenessUpdates :=
           awarenessUpdates s @ (if rw (config s) = ReadOnly then [] else [clientID s])\<rparr>"
  have q: "\<not> alone ?q" "status ?q = Connected" "realtime_channel ?q" "documentUpdates ?q \<noteq> []"
    using assms by simp_all
  note f = flush_once[OF q, of L time, folded presence_sync_enqueues[OF assms(1,4), of L time]]
  show "effects (step L time (PresenceSync n) s) = effects s @
      [ChannelSend
         \<lparr>payload_document =
            Some (mergeUpdates L (documentUpdates s @ [encodeStateAsUpdate L (doc s)])),
          payload_awareness =
            (if rw (config s) = ReadOnly \<and> awarenessUpdates s = [] then None
             else Some (encodeAwarenessUpdate L (awareness s)
                    (uniq (awarenessUpdates s @
                       (if rw (config s) = ReadOnly then [] else [clientID s])))))\<rparr>]"
    using f(1) by simp
  show "documentUpdates (step L time (PresenceSync n) s) = []" using f(2) .
  show "awarenessUpdates (step L time (PresenceSync n) s) = []" using f(3) .
  show "\<not> alone (step L time (PresenceSync n) s)" using f(4) .
qed

lemma presence_sync_no_resync:
  assumes "1 < n" "\<not> resync (config s)" "documentUpdates s = []" "awarenessUpdates s = []"
  shows "step L time (PresenceSync n) s = s\<lparr>alone := False\<rparr>"
  using assms
  by (simp add: presence_sync_def sendUpdate_def resync_request_def commitUpdates_def Let_def)

lemma presence_sync_flush_only:
  assumes "1 < n" "\<not> resync (config s)" "status s = Connected" "realtime_channel s"
    "documentUpdates s \<noteq> [] \<or> awarenessUpdates s \<noteq> []"
  shows "effects (step L time (PresenceSync n) s) = effects s @
      [ChannelSend
         \<lparr>payload_document =
            (if documentUpdates s = [] then None else Some (mergeUpdates L (documentUpdates s))),
          payload_awareness =
            (if awarenessUpdates s = [] then None
             else Some (encodeAwarenessUpdate L (awareness s) (uniq (awarenessUpdates s))))\<rparr>]"
    and "documentUpdates (step L time (PresenceSync n) s) = []"
    and "awarenessUpdates (step L time (PresenceSync n) s) = []"
  using assms
  by (simp_all add: presence_sync_def sendUpdate_def resync_request_def commitUpdates_def
      Let_def emit_def)

lemma saves_while_alone:
  assumes "alone s" "status s = Connected" "save (config s)" "saveDocument_hook (config s)"
    "update_handlers s" "0 \<le> savesUnclaimed s" "save_diff L d (previous s) \<noteq> [0, 0]"
    "t + saveInterval (config s) \<le> t'"
  shows "save_calls (run L [(t, DocumentUpdated d u), (t', DebounceExpired)] s)
      = save_calls s @ [save_diff L d (previous s)]"
    and "broadcasts (run L [(t, DocumentUpdated d u), (t', DebounceExpired)] s) = broadcasts s"
proof -
  let ?s1 = "step L t (DocumentUpdated d u) s"
  have c1: "core ?s1 = core (s\<lparr>doc := d, savesOutstanding := savesOutstanding s + 1,
            savesUnclaimed := savesUnclaimed s + 1,
            debouncedSave_due := Some (t + saveInterval (config s))\<rparr>)"
    using assms(2-5) by (rule edit_step)
  note f = core_fields[OF c1]
  have "step L t' DebounceExpired ?s1 =
      emit (CallSaveDocument (save_diff L (doc ?s1) (previous ?s1)))
        (?s1\<lparr>debouncedSave_due := None, savesUnclaimed := 0,
           pending_saves := pending_saves ?s1 @ [(savesUnclaimed ?s1, [])]\<rparr>)"
    using f assms by (intro debounce_fires) simp_all
  then show "save_calls (run L [(t, DocumentUpdated d u), (t', DebounceExpired)] s)
      = save_calls s @ [save_diff L d (previous s)]"
    using f by (simp add: emit_def)
  have o1: "outgoing ?s1 = outgoing s"
    using assms(1) by (intro quiet_step) (simp_all add: alone_outgoing)
  then have "outgoing (step L t' DebounceExpired ?s1) = outgoing ?s1"
    using assms(1) by (intro quiet_step) (simp_all add: alone_outgoing)
  then show "broadcasts (run L [(t, DocumentUpdated d u), (t', DebounceExpired)] s) = broadcasts s"
    using o1 by (simp add: outgoing_def)
qed

text \<open>
  C4, as stated, fails: a connected provider whose configuration turns resync off,
  with nothing buffered, enqueues no resync update and broadcasts nothing on a presence
  event that shows two members.
\<close>

theorem alone_suppression_counterexample:
  "status (example_provider (Some False)) = Connected
   \<and> realtime_channel (example_provider (Some False))
   \<and> step example_library 2 (PresenceSync 2) (example_provider (Some False))
      = (example_provider (Some False))\<lparr>alone := False\<rparr>
   \<and> documentUpdates (step example_library 2 (PresenceSync 2) (example_provider (Some False))) = []
   \<and> broadcasts (step example_library 2 (PresenceSync 2) (example_provider (Some False))) = []"
  by (simp add: example_connected presence_sync_def sendUpdate_def resync_request_def
      commitUpdates_def Let_def)

text \<open>
  C4, amended. While the provider is alone, \<^verbatim>\<open>commitUpdates\<close> does nothing, and no
  event other than a presence event showing more than one member makes it broadcast or
  ends its being alone: local edits and awareness changes produce no outgoing message.
  Saves still occur: a local edit on a connected provider that is alone, with saving
  enabled, is passed to the save callback when the debounce expires. On a presence event
  showing more than one member the provider calls \<^verbatim>\<open>sendUpdate({ resync: true })\<close>
  and then \<^verbatim>\<open>commitUpdates\<close>. When resync is enabled and the provider is connected
  with its channel, the full state is enqueued and everything buffered leaves in exactly
  one broadcast: the merged document updates with the full state, and the awareness of
  the buffered clients with the provider's own (its own is left out in read-only mode).
  When resync is disabled nothing is enqueued: what is buffered leaves in one broadcast,
  and with nothing buffered there is no broadcast.
\<close>

theorem alone_suppression:
  "(alone s \<longrightarrow> commitUpdates L s = s)
   \<and> (alone s \<and> (\<forall>n. e = PresenceSync n \<longrightarrow> n \<le> 1) \<longrightarrow>
        broadcasts (step L time e s) = broadcasts s \<and> alone (step L time e s))
   \<and> (alone s \<and> status s = Connected \<and> save (config s) \<and> saveDocument_hook (config s) \<and>
      update_handlers s \<and> 0 \<le> savesUnclaimed s \<and> save_diff L d (previous s) \<noteq> [0, 0] \<and>
      t + saveInterval (config s) \<le> t' \<longrightarrow>
        save_calls (run L [(t, DocumentUpdated d u), (t', DebounceExpired)] s)
          = save_calls s @ [save_diff L d (previous s)] \<and>
        broadcasts (run L [(t, DocumentUpdated d u), (t', DebounceExpired)] s) = broadcasts s)
   \<and> (1 < n \<and> status s = Connected \<and> realtime_channel s \<and> resync (config s) \<longrightarrow>
        effects (step L time (PresenceSync n) s) = effects s @
          [ChannelSend
             \<lparr>payload_document =
                Some (mergeUpdates L (documentUpdates s @ [encodeStateAsUpdate L (doc s)])),
              payload_awareness =
                (if rw (config s) = ReadOnly \<and> awarenessUpdates s = [] then None
                 else Some (encodeAwarenessUpdate L (awareness s)
                        (uniq (awarenessUpdates s @
                           (if rw (config s) = ReadOnly then [] else [clientID s])))))\<rparr>] \<and>
        documentUpdates (step L time (PresenceSync n) s) = [] \<and>
        awarenessUpdates (step L time (PresenceSync n) s) = [])
   \<and> (1 < n \<and> status s = Connected \<and> realtime_channel s \<and> \<not> resync (config s) \<and>
      (documentUpdates s \<noteq> [] \<or> awarenessUpdates s \<noteq> []) \<longrightarrow>
        effects (step L time (PresenceSync n) s) = effects s @
          [ChannelSend
             \<lparr>payload_document =
                (if documentUpdates s = [] then None
                 else Some (mergeUpdates L (documentUpdates s))),
              payload_awareness =
                (if awarenessUpdates s = [] then None
                 else Some (encodeAwarenessUpdate L (awareness s) (uniq (awarenessUpdates s))))\<rparr>] \<and>
        documentUpdates (step L time (PresenceSync n) s) = [] \<and>
        awarenessUpdates (step L time (PresenceSync n) s) = [])
   \<and> (1 < n \<and> \<not> resync (config s) \<and> documentUpdates s = [] \<and> awarenessUpdates s = [] \<longrightarrow>
        step L time (PresenceSync n) s = s\<lparr>alone := False\<rparr>)"
proof (intro conjI impI)
  assume "alone s"
  then show "commitUpdates L s = s" by (rule commitUpdates_alone)
next
  assume a: "alone s \<and> (\<forall>n. e = PresenceSync n \<longrightarrow> n \<le> 1)"
  then have "outgoing (step L time e s) = outgoing s"
    by (intro quiet_step) (simp_all add: alone_outgoing)
  then show "broadcasts (step L time e s) = broadcasts s" "alone (step L time e s)"
    using a by (simp_all add: outgoing_def)
next
  assume a: "alone s \<and> status s = Connected \<and> save (config s) \<and> saveDocument_hook (config s) \<and>
      update_handlers s \<and> 0 \<le> savesUnclaimed s \<and> save_diff L d (previous s) \<noteq> [0, 0] \<and>
      t + saveInterval (config s) \<le> t'"
  then show "save_calls (run L [(t, DocumentUpdated d u), (t', DebounceExpired)] s)
          = save_calls s @ [save_diff L d (previous s)]"
    by (intro saves_while_alone(1)) simp_all
  from a show "broadcasts (run L [(t, DocumentUpdated d u), (t', DebounceExpired)] s) = broadcasts s"
    by (intro saves_while_alone(2)[where d = d]) simp_all
next
  assume a: "1 < n \<and> status s = Connected \<and> realtime_channel s \<and> resync (config s)"
  then show "effects (step L time (PresenceSync n) s) = effects s @
          [ChannelSend
             \<lparr>payload_document =
                Some (mergeUpdates L (documentUpdates s @ [encodeStateAsUpdate L (doc s)])),
              payload_awareness =
                (if rw (config s) = ReadOnly \<and> awarenessUpdates s = [] then None
                 else Some (encodeAwarenessUpdate L (awareness s)
                        (uniq (awarenessUpdates s @
                           (if rw (config s) = ReadOnly then [] else [clientID s])))))\<rparr>]"
    by (intro presence_sync_resync(1)) simp_all
  from a show "documentUpdates (step L time (PresenceSync n) s) = []"
    by (intro presence_sync_resync(2)) simp_all
  from a show "awarenessUpdates (step L time (PresenceSync n) s) = []"
    by (intro presence_sync_resync(3)) simp_all
next
  assume a: "1 < n \<and> status s = Connected \<and> realtime_channel s \<and> \<not> resync (config s) \<and>
      (documentUpdates s \<noteq> [] \<or> awarenessUpdates s \<noteq> [])"
  then show "effects (step L time (PresenceSync n) s) = effects s @
          [ChannelSend
             \<lparr>payload_document =
                (if documentUpdates s = [] then None
                 else Some (mergeUpdates L (documentUpdates s))),
              payload_awareness =
                (if awarenessUpdates s = [] then None
                 else Some (encodeAwarenessUpdate L (awareness s) (uniq (awarenessUpdates s))))\<rparr>]"
    by (intro presence_sync_flush_only(1)) simp_all
  from a show "documentUpdates (step L time (PresenceSync n) s) = []"
    by (intro presence_sync_flush_only(2)) simp_all
  from a show "awarenessUpdates (step L time (PresenceSync n) s) = []"
    by (intro presence_sync_flush_only(3)) simp_all
next
  assume "1 < n \<and> \<not> resync (config s) \<and> documentUpdates s = [] \<and> awarenessUpdates s = []"
  then show "step L time (PresenceSync n) s = s\<lparr>alone := False\<rparr>"
    by (intro presence_sync_no_resync) simp_all
qed

theorem alone_suppression_witness:
  "broadcasts (step example_library 2 (DocumentUpdated [1] [1]) (example_provider None)) = []
   \<and> documentUpdates (step example_library 2 (DocumentUpdated [1] [1]) (example_provider None)) = [[1]]
   \<and> effects (step example_library 3 (PresenceSync 2)
        (step example_library 2 (DocumentUpdated [1] [1]) (example_provider None)))
      = [EmitStatus Connecting None, ChannelSubscribe, ChannelTrack, EmitStatus Connected None,
         EmitSaving True,
         ChannelSend \<lparr>payload_document = Some [1, 1], payload_awareness = Some [7]\<rparr>]"
proof -
  let ?s = "example_provider None"
  let ?s1 = "step example_library 2 (DocumentUpdated [1] [1]) ?s"
  have s1: "?s1 = ?s\<lparr>doc := [1], savesOutstanding := 1, savesUnclaimed := 1,
      debouncedSave_due := Some 2502, documentUpdates := [[1]],
      effects := effects ?s @ [EmitSaving True]\<rparr>"
    by (simp add: example_connected onDocumentUpdate_def sendUpdate_def throttledSend_def
        commitUpdates_def requestSave_def saving_def emit_def Let_def)
  have h: "alone ?s" "broadcasts ?s = []"
    "effects ?s = [EmitStatus Connecting None, ChannelSubscribe, ChannelTrack,
       EmitStatus Connected None]"
    by (simp_all add: example_connected)
  have h1: "status ?s1 = Connected" "realtime_channel ?s1" "resync (config ?s1)"
    "rw (config ?s1) = ReadWrite" "documentUpdates ?s1 = [[1]]" "awarenessUpdates ?s1 = []"
    "doc ?s1 = [1]" "clientID ?s1 = 7" "awareness ?s1 = [7]"
    unfolding s1 by (simp_all add: example_connected)
  have 1: "broadcasts ?s1 = []"
    using alone_suppression[of ?s example_library "DocumentUpdated [1] [1]" 2] h
    by (simp del: step.simps)
  have 2: "effects (step example_library 3 (PresenceSync 2) ?s1) = effects ?s1 @
      [ChannelSend \<lparr>payload_document = Some [1, 1], payload_awareness = Some [7]\<rparr>]"
    using alone_suppression[of ?s1 example_library _ 3 _ _ _ _ 2] h1
    by (simp add: example_library_def uniq_def del: step.simps)
  show ?thesis using 1 2 h1(5) unfolding s1 h(3) by (simp del: step.simps)
qed


end
